theory Spec2Isabelle
  imports Main
begin

section \<open>Data model (src/types and the module state of services/adsService.ts)\<close>

text \<open>
  The embedding follows the TypeScript declarations: a value has its declared type (but
  for the two fields that a table lookup fills, see \<open>slot\<close> below), and a
  field is optional exactly where the code guards it (\<^verbatim>\<open>features ?? []\<close>,
  \<^verbatim>\<open>payload.services ?? []\<close>, \<^verbatim>\<open>config?.apiUrl\<close>). The two records share field
  names in the source; the remote record's fields carry the prefix \<open>service_\<close> here, and
  \<^verbatim>\<open>id\<close> is \<open>ad_id\<close>.
\<close>

datatype accent_color = blue | green | purple | orange | pink

text \<open>
  What the \<^verbatim>\<open>icon\<close> and \<^verbatim>\<open>accentColor\<close> of a record hold at run time. Both are
  filled from a lookup in an object literal, and such a lookup also finds what the object
  inherits from \<^verbatim>\<open>Object.prototype\<close>: \<open>Plain v\<close> is a value of the declared type,
  \<open>Inherited key\<close> is the member of \<^verbatim>\<open>Object.prototype\<close> under \<open>key\<close> (a
  function, or the prototype object itself), which the declared type does not cover.
  (\<^verbatim>\<open>JSON.stringify\<close> leaves a function-valued field out, so a record that holds
  such a member is not read back from the cache as it was written; where a theorem needs
  a list to be read back as written, that is a hypothesis of the theorem.)
\<close>

datatype 'a slot = Plain 'a | Inherited string

record AdConfig =
  ad_id :: string
  title :: string
  tagline :: string
  description :: string
  ctaText :: string
  ctaUrl :: string
  icon :: "string slot"
  accentColor :: "accent_color slot"
  features :: "string list option"

record AdsSDKConfig =
  apiUrl :: "string option"
  intakeBaseUrl :: "string option"
  cacheDuration :: "int option"

record APIServiceConfig =
  service_id :: string
  service_title :: string
  service_tagline :: string
  service_description :: string
  service_features :: "string list option"
  primaryCtaLabel :: string
  primaryCtaId :: string
  intakeUrl :: string
  accent :: string

record ContentPayload =
  version :: string
  generatedAt :: string
  services :: "APIServiceConfig list option"

text \<open>The module-level variables \<^verbatim>\<open>API_URL\<close>, \<^verbatim>\<open>INTAKE_BASE_URL\<close> and
  \<^verbatim>\<open>CACHE_DURATION\<close>: process-wide state, passed explicitly to every operation. An
  awaited operation runs under one configuration from its start to its end (a mutation
  that interleaves with a pending operation is not modelled); only the detached
  background refresh runs under the configuration of a later moment.\<close>

record config =
  API_URL :: string
  INTAKE_BASE_URL :: string
  CACHE_DURATION :: int

definition initial_config :: config where
  "initial_config =
     \<lparr>API_URL = ''https://davidjgrimsley.com/api/content'',
      INTAKE_BASE_URL = ''https://davidjgrimsley.com'',
      CACHE_DURATION = 1000 * 60 * 60\<rparr>"

definition CACHE_KEY :: string where
  "CACHE_KEY = ''dj_ads_cache''"

definition CACHE_TIMESTAMP_KEY :: string where
  "CACHE_TIMESTAMP_KEY = ''dj_ads_cache_timestamp''"

text \<open>\<^verbatim>\<open>s.replace(/\/$/, '')\<close>: one trailing slash is removed, if there is one.\<close>

definition removeTrailingSlash :: "string \<Rightarrow> string" where
  "removeTrailingSlash s = (if s \<noteq> [] \<and> last s = CHR ''/'' then butlast s else s)"

text \<open>
  \<^verbatim>\<open>initializeAdsSDK\<close>. A field is taken when it is truthy (a defined, non-empty
  string), the duration when it is defined and not negative. The warnings written to the
  console change nothing and are left out.
\<close>

definition initializeAdsSDK :: "AdsSDKConfig option \<Rightarrow> config \<Rightarrow> config" where
  "initializeAdsSDK arg c =
     (let c1 = (case Option.bind arg apiUrl of
                  Some u \<Rightarrow> if u \<noteq> [] then c\<lparr>API_URL := removeTrailingSlash u\<rparr> else c
                | None \<Rightarrow> c);
          c2 = (case Option.bind arg intakeBaseUrl of
                  Some b \<Rightarrow> if b \<noteq> [] then c1\<lparr>INTAKE_BASE_URL := removeTrailingSlash b\<rparr> else c1
                | None \<Rightarrow> c1)
      in (case Option.bind arg cacheDuration of
            Some d \<Rightarrow> if d < 0 then c2 else c2\<lparr>CACHE_DURATION := d\<rparr>
          | None \<Rightarrow> c2))"

section \<open>Transformation logic\<close>

text \<open>
  \<^verbatim>\<open>iconMap\<close> and \<^verbatim>\<open>colorMap\<close> are object literals, and \<^verbatim>\<open>table[key]\<close> on an
  object literal answers for the keys the literal lists and for the keys of
  \<^verbatim>\<open>Object.prototype\<close>, from which every object literal inherits. A key of neither
  kind gives \<^verbatim>\<open>undefined\<close>, which is \<open>None\<close>.
\<close>

definition Object_prototype_keys :: "string list" where
  "Object_prototype_keys =
     [''constructor'', ''hasOwnProperty'', ''isPrototypeOf'', ''propertyIsEnumerable'',
      ''toLocaleString'', ''toString'', ''valueOf'', ''__proto__'',
      ''__defineGetter__'', ''__defineSetter__'', ''__lookupGetter__'', ''__lookupSetter__'']"

definition object_literal :: "(string \<rightharpoonup> 'a) \<Rightarrow> string \<Rightarrow> 'a slot option" where
  "object_literal own key =
     (case own key of
        Some v \<Rightarrow> Some (Plain v)
      | None \<Rightarrow> if key \<in> set Object_prototype_keys then Some (Inherited key) else None)"

definition iconMap :: "string \<Rightarrow> string slot option" where
  "iconMap =
     object_literal
       [''app-development'' \<mapsto> ''phone-portrait-outline'',
        ''website-building'' \<mapsto> ''globe-outline'',
        ''game-development'' \<mapsto> ''game-controller-outline'',
        ''tutoring'' \<mapsto> ''school-outline'',
        ''online-presence'' \<mapsto> ''trending-up-outline'']"

definition colorMap :: "string \<Rightarrow> accent_color slot option" where
  "colorMap =
     object_literal
       [''#0E668B'' \<mapsto> blue,
        ''#1E9E70'' \<mapsto> green,
        ''#723B80'' \<mapsto> purple,
        ''#EEA444'' \<mapsto> orange,
        ''#D63C83'' \<mapsto> pink]"

text \<open>
  \<^verbatim>\<open>fallbackAds\<close> is a module-level constant: its template literals are evaluated once,
  when the module is loaded, so they read \<^verbatim>\<open>INTAKE_BASE_URL\<close> as it is then, which is
  its initial value (\<^verbatim>\<open>initializeAdsSDK\<close> can only run after the module has loaded).
\<close>

definition fallbackAds :: "AdConfig list" where
  "fallbackAds =
     [\<lparr>ad_id = ''creative-strategy'',
       title = ''Creative Strategy Sprint'',
       tagline = ''Clarify your direction and ship faster.'',
       description = ''A focused 1:1 sprint to align your creative goals, audience, and execution plan. Perfect for creators launching a new project or pivoting into a new niche.'',
       ctaText = ''Book a Strategy Sprint'',
       ctaUrl = INTAKE_BASE_URL initial_config @ ''/creative-strategy'',
       icon = Plain ''sparkles'',
       accentColor = Plain purple,
       features = Some [''Roadmap for your next 90 days'',
                        ''Positioning & audience alignment'',
                        ''Content and distribution checklist'']\<rparr>,
      \<lparr>ad_id = ''portfolio-review'',
       title = ''Portfolio Review'',
       tagline = ''Make your work stand out with clarity.'',
       description = ''Get targeted, practical feedback on your portfolio, project pages, and case studies. Walk away with fixes you can implement immediately.'',
       ctaText = ''Schedule a Review'',
       ctaUrl = INTAKE_BASE_URL initial_config @ ''/portfolio-review'',
       icon = Plain ''layers'',
       accentColor = Plain blue,
       features = Some [''Portfolio positioning feedback'',
                        ''Case study structure & flow'',
                        ''Actionable next steps'']\<rparr>,
      \<lparr>ad_id = ''brand-identity'',
       title = ''Brand Identity Boost'',
       tagline = ''A cohesive look that feels premium.'',
       description = ''Refresh your visuals and message with a lightweight brand identity package tailored to creative teams and indie studios.'',
       ctaText = ''Explore Branding'',
       ctaUrl = INTAKE_BASE_URL initial_config @ ''/brand-identity'',
       icon = Plain ''color-palette'',
       accentColor = Plain orange,
       features = Some [''Palette + typography direction'',
                        ''Moodboard and brand voice'',
                        ''Quick-start asset kit'']\<rparr>,
      \<lparr>ad_id = ''launch-support'',
       title = ''Launch Support'',
       tagline = ''Build hype and land your first fans.'',
       description = ''From pre-launch planning to post-launch momentum, get a proven playbook and hands-on support for your next release.'',
       ctaText = ''Plan a Launch'',
       ctaUrl = INTAKE_BASE_URL initial_config @ ''/launch-support'',
       icon = Plain ''rocket'',
       accentColor = Plain green,
       features = Some [''Launch checklist & timeline'',
                        ''Landing page feedback'',
                        ''Post-launch growth plan'']\<rparr>]"

text \<open>
  \<^verbatim>\<open>transformService\<close>. In \<^verbatim>\<open>colorMap[service.accent] || 'blue'\<close> everything a
  lookup can find is truthy (the table's values are non-empty strings, the inherited
  members are functions and an object), so the default is taken exactly when the lookup
  finds nothing.
\<close>

definition transformService :: "config \<Rightarrow> APIServiceConfig \<Rightarrow> AdConfig" where
  "transformService c service =
     (let accentColor' = (case colorMap (accent service) of Some a \<Rightarrow> a | None \<Rightarrow> Plain blue);
          icon' = (case iconMap (service_id service) of
                     Some i \<Rightarrow> i | None \<Rightarrow> Plain ''information-circle-outline'');
          ctaUrl' = INTAKE_BASE_URL c @ intakeUrl service
      in \<lparr>ad_id = service_id service,
          title = service_title service,
          tagline = service_tagline service,
          description = service_description service,
          ctaText = primaryCtaLabel service,
          ctaUrl = ctaUrl',
          icon = icon',
          accentColor = accentColor',
          features = Some (case service_features service of Some fs \<Rightarrow> fs | None \<Rightarrow> [])\<rparr>)"

section \<open>The platform: storage, network, clock, JSON\<close>

text \<open>
  What a promise rejects with. The spec's NetworkFailure covers both a transport error
  (\<open>NetworkFailure\<close>) and a response whose status is not 2xx (\<open>ApiError\<close>, the code's
  \<^verbatim>\<open>new Error(`API error: ${response.status}`)\<close>).
\<close>

datatype error = NetworkFailure | ApiError nat | ParseFailure | StorageFailure

datatype body = Malformed | Json ContentPayload

record response =
  status :: nat
  body :: body

text \<open>What \<^verbatim>\<open>JSON.parse\<close> makes of a stored string: it throws, or yields a falsy value
  (\<^verbatim>\<open>null\<close>, \<^verbatim>\<open>false\<close>, \<^verbatim>\<open>0\<close>, \<^verbatim>\<open>""\<close>), or the list the cast
  \<^verbatim>\<open>as AdConfig[]\<close> declares.\<close>

datatype parsed = SyntaxError | Falsy | Ads "AdConfig list"

text \<open>
  Everything an operation takes from outside the module, fixed for one operation:
  which storage calls throw, what the server answers at a URL (\<open>None\<close>: the transport
  fails), what \<^verbatim>\<open>Date.now()\<close> reads in \<^verbatim>\<open>isCacheExpired\<close> and in
  \<^verbatim>\<open>setCachedAds\<close>, and the JSON codec of the runtime. One operation reads, writes and
  removes each key at most once, so one flag per key and call covers every combination
  of failures. A storage call that throws leaves the store as it was.
\<close>

record env =
  getItem_throws :: "string \<Rightarrow> bool"
  setItem_throws :: "string \<Rightarrow> bool"
  removeItem_throws :: "string \<Rightarrow> bool"
  remote :: "string \<Rightarrow> response option"
  now_at_read :: int
  now_at_write :: int
  JSON_stringify :: "AdConfig list \<Rightarrow> string"
  JSON_parse :: "string \<Rightarrow> parsed"

text \<open>
  The state an operation changes: the persistent key-value store, the requests that have
  left the process (the URLs given to \<^verbatim>\<open>fetch\<close>, in order), and the requests whose
  promise chain nobody awaits (the background refresh).
\<close>

record world =
  store :: "string \<rightharpoonup> string"
  requests :: "string list"
  detached :: "string list"

text \<open>An asynchronous computation: it settles with an error (the promise rejects, \<open>Inl\<close>)
  or a value (\<open>Inr\<close>), and leaves a world behind.\<close>

type_synonym 'a io = "world \<Rightarrow> (error + 'a) \<times> world"

definition resolve :: "'a \<Rightarrow> 'a io" where
  "resolve x = (\<lambda>w. (Inr x, w))"

definition reject :: "error \<Rightarrow> 'a io" where
  "reject err = (\<lambda>w. (Inl err, w))"

definition await :: "'a io \<Rightarrow> ('a \<Rightarrow> 'b io) \<Rightarrow> 'b io" where
  "await m f = (\<lambda>w. case m w of (Inl err, w') \<Rightarrow> (Inl err, w') | (Inr x, w') \<Rightarrow> f x w')"

definition try_catch :: "'a io \<Rightarrow> (error \<Rightarrow> 'a io) \<Rightarrow> 'a io" where
  "try_catch m handler =
     (\<lambda>w. case m w of (Inl err, w') \<Rightarrow> handler err w' | (Inr x, w') \<Rightarrow> (Inr x, w'))"

subsection \<open>Storage abstraction\<close>

text \<open>
  The \<^verbatim>\<open>storage\<close> object picks \<^verbatim>\<open>window.localStorage\<close> or \<^verbatim>\<open>AsyncStorage\<close> by
  platform; both are string stores keyed by strings, and the one in use is the \<open>store\<close>
  of the world. Each call either throws or does its work.
\<close>

definition storage_getItem :: "env \<Rightarrow> string \<Rightarrow> (string option) io" where
  "storage_getItem e key =
     (\<lambda>w. if getItem_throws e key then (Inl StorageFailure, w) else (Inr (store w key), w))"

definition storage_setItem :: "env \<Rightarrow> string \<Rightarrow> string \<Rightarrow> unit io" where
  "storage_setItem e key v =
     (\<lambda>w. if setItem_throws e key then (Inl StorageFailure, w)
          else (Inr (), w\<lparr>store := (store w)(key \<mapsto> v)\<rparr>))"

definition storage_removeItem :: "env \<Rightarrow> string \<Rightarrow> unit io" where
  "storage_removeItem e key =
     (\<lambda>w. if removeItem_throws e key then (Inl StorageFailure, w)
          else (Inr (), w\<lparr>store := (store w)(key := None)\<rparr>))"

subsection \<open>Timestamps as decimal strings\<close>

text \<open>
  \<^verbatim>\<open>Date.now().toString()\<close> writes an integer in decimal. \<^verbatim>\<open>parseInt(s, 10)\<close> skips
  leading white space, reads an optional sign and then digits up to the first character
  that is not one; with no digit it yields \<^verbatim>\<open>NaN\<close>, which is \<open>None\<close> here. (Of the
  white space of ECMAScript, the characters of ASCII are modelled. Times and durations
  are integers; JavaScript's numbers are exact on integers up to \<open>2\<^sup>5\<^sup>3\<close>, far above any
  time in milliseconds.)
\<close>

definition char_of_digit :: "nat \<Rightarrow> char" where
  "char_of_digit d = char_of (48 + d)"

definition is_digit :: "char \<Rightarrow> bool" where
  "is_digit ch = (48 \<le> (of_char ch :: nat) \<and> (of_char ch :: nat) \<le> 57)"

definition digit_of :: "char \<Rightarrow> nat" where
  "digit_of ch = of_char ch - 48"

definition is_space :: "char \<Rightarrow> bool" where
  "is_space ch = ((of_char ch :: nat) \<in> {9, 10, 11, 12, 13, 32})"

fun decimal :: "nat \<Rightarrow> string" where
  "decimal n = (if n < 10 then [char_of_digit n] else decimal (n div 10) @ [char_of_digit (n mod 10)])"

declare decimal.simps [simp del]

definition toString :: "int \<Rightarrow> string" where
  "toString i = (if i < 0 then CHR ''-'' # decimal (nat (- i)) else decimal (nat i))"

fun digits_value :: "nat \<Rightarrow> string \<Rightarrow> nat" where
  "digits_value acc [] = acc"
| "digits_value acc (ch # cs) = digits_value (acc * 10 + digit_of ch) cs"

definition parseInt :: "string \<Rightarrow> int option" where
  "parseInt s =
     (let t = dropWhile is_space s;
          negative = (t \<noteq> [] \<and> hd t = CHR ''-'');
          u = (if t \<noteq> [] \<and> (hd t = CHR ''-'' \<or> hd t = CHR ''+'') then tl t else t);
          ds = takeWhile is_digit u
      in if ds = [] then None
         else Some (if negative then - int (digits_value 0 ds) else int (digits_value 0 ds)))"

section \<open>Cache management\<close>

text \<open>\<^verbatim>\<open>if (!cachedData) return null\<close>: a missing entry and the empty string are both
  falsy. A falsy parse result is returned as it is, and every caller only tests it for
  truthiness, so it is \<open>None\<close>.\<close>

definition getCachedAds :: "env \<Rightarrow> (AdConfig list option) io" where
  "getCachedAds e =
     try_catch
       (await (storage_getItem e CACHE_KEY) (\<lambda>cachedData.
          case cachedData of
            None \<Rightarrow> resolve None
          | Some d \<Rightarrow>
              if d = [] then resolve None
              else (case JSON_parse e d of
                      SyntaxError \<Rightarrow> reject ParseFailure
                    | Falsy \<Rightarrow> resolve None
                    | Ads ads \<Rightarrow> resolve (Some ads))))
       (\<lambda>err. resolve None)"

definition setCachedAds :: "env \<Rightarrow> AdConfig list \<Rightarrow> unit io" where
  "setCachedAds e ads =
     try_catch
       (await (storage_setItem e CACHE_KEY (JSON_stringify e ads)) (\<lambda>_.
          storage_setItem e CACHE_TIMESTAMP_KEY (toString (now_at_write e))))
       (\<lambda>err. resolve ())"

text \<open>\<^verbatim>\<open>age > CACHE_DURATION\<close> is false when the age is \<^verbatim>\<open>NaN\<close>.\<close>

definition isCacheExpired :: "config \<Rightarrow> env \<Rightarrow> bool io" where
  "isCacheExpired c e =
     try_catch
       (await (storage_getItem e CACHE_TIMESTAMP_KEY) (\<lambda>timestamp.
          case timestamp of
            None \<Rightarrow> resolve True
          | Some t \<Rightarrow>
              if t = [] then resolve True
              else resolve (case parseInt t of
                              None \<Rightarrow> False
                            | Some written \<Rightarrow> now_at_read e - written > CACHE_DURATION c)))
       (\<lambda>err. resolve True)"

section \<open>API fetching\<close>

text \<open>
  \<^verbatim>\<open>fetch(url)\<close> in two steps: the request leaves the process when \<^verbatim>\<open>fetch\<close> is
  called, and the promise settles later with the response, or rejects when the transport
  fails.
\<close>

definition send_request :: "string \<Rightarrow> unit io" where
  "send_request url = (\<lambda>w. (Inr (), w\<lparr>requests := requests w @ [url]\<rparr>))"

definition receive :: "env \<Rightarrow> string \<Rightarrow> response io" where
  "receive e url =
     (\<lambda>w. case remote e url of None \<Rightarrow> (Inl NetworkFailure, w) | Some r \<Rightarrow> (Inr r, w))"

definition fetch :: "env \<Rightarrow> string \<Rightarrow> response io" where
  "fetch e url = await (send_request url) (\<lambda>_. receive e url)"

definition ok :: "response \<Rightarrow> bool" where
  "ok r = (200 \<le> status r \<and> status r \<le> 299)"

definition response_json :: "response \<Rightarrow> ContentPayload io" where
  "response_json r = (case body r of Malformed \<Rightarrow> reject ParseFailure | Json payload \<Rightarrow> resolve payload)"

text \<open>The part of \<^verbatim>\<open>fetchAdsFromAPI\<close> that runs once the response is there.\<close>

definition readResponse :: "config \<Rightarrow> response \<Rightarrow> (AdConfig list) io" where
  "readResponse c r =
     (if \<not> ok r then reject (ApiError (status r))
      else await (response_json r) (\<lambda>payload.
             resolve (map (transformService c)
                        (case services payload of Some ss \<Rightarrow> ss | None \<Rightarrow> []))))"

definition fetchAdsFromAPI :: "config \<Rightarrow> env \<Rightarrow> (AdConfig list) io" where
  "fetchAdsFromAPI c e = await (fetch e (API_URL c)) (readResponse c)"

text \<open>What the promise of \<^verbatim>\<open>fetchAdsFromAPI()\<close> does after the request to \<open>url\<close> has
  left: it waits for the response and reads it.\<close>

definition settle :: "config \<Rightarrow> env \<Rightarrow> string \<Rightarrow> (AdConfig list) io" where
  "settle c e url = await (receive e url) (readResponse c)"

section \<open>Public API\<close>

text \<open>
  The stale branch calls \<^verbatim>\<open>fetchAdsFromAPI()\<close> and awaits nothing: the request leaves
  at once (\<open>detach\<close>), and the rest of the chain,
  \<^verbatim>\<open>.then(setCachedAds).catch(...)\<close>, runs after \<^verbatim>\<open>getAllAds\<close> has returned
  (\<open>backgroundRefresh\<close>), in the configuration and the environment of that later moment.
\<close>

definition detach :: "string \<Rightarrow> unit io" where
  "detach url = await (send_request url) (\<lambda>_ w. (Inr (), w\<lparr>detached := detached w @ [url]\<rparr>))"

definition backgroundRefresh :: "config \<Rightarrow> env \<Rightarrow> string \<Rightarrow> unit io" where
  "backgroundRefresh c e url =
     try_catch
       (await (settle c e url) (setCachedAds e))
       (\<lambda>err. resolve ())"

text \<open>\<^verbatim>\<open>getAllAds\<close>. The two guarded returns, \<^verbatim>\<open>cachedAds && !cacheExpired\<close> and
  \<^verbatim>\<open>cachedAds && cacheExpired\<close>, are the two branches under \<open>Some\<close>.\<close>

definition getAllAds :: "config \<Rightarrow> env \<Rightarrow> (AdConfig list) io" where
  "getAllAds c e =
     await (getCachedAds e) (\<lambda>cachedAds.
     await (isCacheExpired c e) (\<lambda>cacheExpired.
       case cachedAds of
         Some ads \<Rightarrow>
           if \<not> cacheExpired then resolve ads
           else await (detach (API_URL c)) (\<lambda>_. resolve ads)
       | None \<Rightarrow>
           try_catch
             (await (fetchAdsFromAPI c e) (\<lambda>freshAds.
              await (setCachedAds e freshAds) (\<lambda>_.
                resolve (if freshAds \<noteq> [] then freshAds else fallbackAds))))
             (\<lambda>err. resolve fallbackAds)))"

definition refreshAds :: "config \<Rightarrow> env \<Rightarrow> (AdConfig list) io" where
  "refreshAds c e =
     await (fetchAdsFromAPI c e) (\<lambda>freshAds.
     await (setCachedAds e freshAds) (\<lambda>_.
       resolve freshAds))"

definition clearAdsCache :: "env \<Rightarrow> unit io" where
  "clearAdsCache e =
     await (storage_removeItem e CACHE_KEY) (\<lambda>_.
       storage_removeItem e CACHE_TIMESTAMP_KEY)"

section \<open>Example inputs\<close>

text \<open>
  Concrete worlds and environments on which the theorems below are instantiated. The
  JSON codec of the examples is a table: it knows the empty list and the list of one
  sample record, and inverts itself on them.
\<close>

definition empty_world :: world where
  "empty_world = \<lparr>store = Map.empty, requests = [], detached = []\<rparr>"

definition sample_service :: APIServiceConfig where
  "sample_service =
     \<lparr>service_id = ''tutoring'',
      service_title = ''Tutoring'',
      service_tagline = ''Learn to code'',
      service_description = ''One-on-one lessons'',
      service_features = None,
      primaryCtaLabel = ''Book a lesson'',
      primaryCtaId = ''tutoring-intake'',
      intakeUrl = ''/intake/tutoring'',
      accent = ''#1E9E70''\<rparr>"

definition sample_response :: "APIServiceConfig list option \<Rightarrow> response" where
  "sample_response ss =
     \<lparr>status = 200,
      body = Json \<lparr>version = ''1'', generatedAt = ''2025-01-01T00:00:00Z'', services = ss\<rparr>\<rparr>"

definition sample_ad :: AdConfig where
  "sample_ad = transformService initial_config sample_service"

definition table_stringify :: "AdConfig list \<Rightarrow> string" where
  "table_stringify ads =
     (if ads = [] then ''[]'' else if ads = [sample_ad] then ''[tutoring]'' else ''[other]'')"

definition table_parse :: "string \<Rightarrow> parsed" where
  "table_parse s =
     (if s = ''[]'' then Ads [] else if s = ''[tutoring]'' then Ads [sample_ad] else SyntaxError)"

definition online_env :: "APIServiceConfig list option \<Rightarrow> int \<Rightarrow> env" where
  "online_env ss now =
     \<lparr>getItem_throws = (\<lambda>key. False),
      setItem_throws = (\<lambda>key. False),
      removeItem_throws = (\<lambda>key. False),
      remote = (\<lambda>url. Some (sample_response ss)),
      now_at_read = now,
      now_at_write = now,
      JSON_stringify = table_stringify,
      JSON_parse = table_parse\<rparr>"

definition offline_env :: env where
  "offline_env =
     \<lparr>getItem_throws = (\<lambda>key. True),
      setItem_throws = (\<lambda>key. True),
      removeItem_throws = (\<lambda>key. True),
      remote = (\<lambda>url. None),
      now_at_read = 0,
      now_at_write = 0,
      JSON_stringify = table_stringify,
      JSON_parse = table_parse\<rparr>"

definition cached_world :: "string \<Rightarrow> string \<Rightarrow> world" where
  "cached_world payload timestamp =
     \<lparr>store = [CACHE_KEY \<mapsto> payload, CACHE_TIMESTAMP_KEY \<mapsto> timestamp],
      requests = [], detached = []\<rparr>"

definition late_write_failure_env :: env where
  "late_write_failure_env =
     (online_env (Some [sample_service]) 3700000)
       \<lparr>setItem_throws := (\<lambda>key. key = CACHE_TIMESTAMP_KEY)\<rparr>"

definition full_store_env :: env where
  "full_store_env = (online_env (Some []) 1000)\<lparr>setItem_throws := (\<lambda>key. True)\<rparr>"

definition relocated_config :: config where
  "relocated_config =
     initializeAdsSDK
       (Some \<lparr>apiUrl = Some ''https://example.org/api/content/'',
              intakeBaseUrl = Some ''https://example.org/'',
              cacheDuration = Some 60000\<rparr>)
       initial_config"

section \<open>How the building blocks run\<close>

lemma resolve_run [simp]: "resolve x w = (Inr x, w)"
  by (simp add: resolve_def)

lemma reject_run [simp]: "reject err w = (Inl err, w)"
  by (simp add: reject_def)

lemma getCachedAds_run: "\<exists>v. getCachedAds e w = (Inr v, w)"
  by (auto simp: getCachedAds_def try_catch_def await_def storage_getItem_def
      split: option.splits parsed.splits)

lemma isCacheExpired_run: "\<exists>b. isCacheExpired c e w = (Inr b, w)"
  by (auto simp: isCacheExpired_def try_catch_def await_def storage_getItem_def
      split: option.splits)

lemma setCachedAds_eq:
  "setCachedAds e ads w =
     (Inr (),
      if setItem_throws e CACHE_KEY then w
      else if setItem_throws e CACHE_TIMESTAMP_KEY
        then w\<lparr>store := (store w)(CACHE_KEY \<mapsto> JSON_stringify e ads)\<rparr>
        else w\<lparr>store := (store w)(CACHE_KEY \<mapsto> JSON_stringify e ads,
                                   CACHE_TIMESTAMP_KEY \<mapsto> toString (now_at_write e))\<rparr>)"
  by (simp add: setCachedAds_def try_catch_def await_def storage_setItem_def)

lemma settle_world: "snd (settle c e url w) = w"
  by (auto simp: settle_def await_def receive_def readResponse_def response_json_def
      split: option.splits body.splits)

lemma settle_indep: "fst (settle c e url w) = fst (settle c e url w')"
  by (auto simp: settle_def await_def receive_def readResponse_def response_json_def
      split: option.splits body.splits)

lemma settle_eq: "settle c e url w' = (fst (settle c e url w), w')"
  using settle_world [of c e url w'] settle_indep [of c e url w' w]
  by (metis prod.collapse)

lemma settle_Inr_iff:
  "fst (settle c e url w) = Inr ads \<longleftrightarrow>
     (\<exists>r payload. remote e url = Some r \<and> ok r \<and> body r = Json payload \<and>
        ads = map (transformService c) (case services payload of Some ss \<Rightarrow> ss | None \<Rightarrow> []))"
  by (auto simp: settle_def await_def receive_def readResponse_def response_json_def
      split: option.splits body.splits)

lemma settle_Inl_iff:
  "fst (settle c e url w) = Inl err \<longleftrightarrow>
     (remote e url = None \<and> err = NetworkFailure) \<or>
     (\<exists>r. remote e url = Some r \<and>
        (if \<not> ok r then err = ApiError (status r) else body r = Malformed \<and> err = ParseFailure))"
  by (auto simp: settle_def await_def receive_def readResponse_def response_json_def
      split: option.splits body.splits)

lemma fetchAdsFromAPI_eq:
  "fetchAdsFromAPI c e w =
     (fst (settle c e (API_URL c) w), w\<lparr>requests := requests w @ [API_URL c]\<rparr>)"
proof -
  have "fetchAdsFromAPI c e w = settle c e (API_URL c) (w\<lparr>requests := requests w @ [API_URL c]\<rparr>)"
    by (simp add: fetchAdsFromAPI_def fetch_def settle_def await_def send_request_def
        split: prod.splits sum.splits)
  then show ?thesis
    using settle_eq [of c e "API_URL c" "w\<lparr>requests := requests w @ [API_URL c]\<rparr>" w] by simp
qed

lemma getCachedAds_absent:
  "store w CACHE_KEY = None \<Longrightarrow> getCachedAds e w = (Inr None, w)"
  by (simp add: getCachedAds_def try_catch_def await_def storage_getItem_def)

lemma getCachedAds_hit:
  assumes "\<not> getItem_throws e CACHE_KEY" and "store w CACHE_KEY = Some d" and "d \<noteq> []"
    and "JSON_parse e d = Ads ads"
  shows "getCachedAds e w = (Inr (Some ads), w)"
  using assms by (simp add: getCachedAds_def try_catch_def await_def storage_getItem_def)

lemma getCachedAds_Some_iff:
  "fst (getCachedAds e w) = Inr (Some ads) \<longleftrightarrow>
     \<not> getItem_throws e CACHE_KEY \<and>
     (\<exists>d. store w CACHE_KEY = Some d \<and> d \<noteq> [] \<and> JSON_parse e d = Ads ads)"
  by (auto simp: getCachedAds_def try_catch_def await_def storage_getItem_def
      split: option.splits parsed.splits)

lemma isCacheExpired_age:
  assumes "\<not> getItem_throws e CACHE_TIMESTAMP_KEY" and "store w CACHE_TIMESTAMP_KEY = Some t"
    and "parseInt t = Some written"
  shows "isCacheExpired c e w = (Inr (now_at_read e - written > CACHE_DURATION c), w)"
proof -
  have "t \<noteq> []"
    using assms(3) by (auto simp: parseInt_def)
  then show ?thesis
    using assms by (simp add: isCacheExpired_def try_catch_def await_def storage_getItem_def)
qed

lemma getAllAds_absent:
  assumes "getCachedAds e w = (Inr None, w)"
  shows "getAllAds c e w =
     (case fst (settle c e (API_URL c) w) of
        Inl err \<Rightarrow> (Inr fallbackAds, w\<lparr>requests := requests w @ [API_URL c]\<rparr>)
      | Inr freshAds \<Rightarrow>
          (Inr (if freshAds \<noteq> [] then freshAds else fallbackAds),
           snd (setCachedAds e freshAds (w\<lparr>requests := requests w @ [API_URL c]\<rparr>))))"
proof -
  obtain b where b: "isCacheExpired c e w = (Inr b, w)"
    using isCacheExpired_run by blast
  show ?thesis
    using assms b
    by (simp add: getAllAds_def await_def try_catch_def fetchAdsFromAPI_eq setCachedAds_eq
        split: sum.splits)
qed

lemma getAllAds_cached:
  assumes "getCachedAds e w = (Inr (Some ads), w)" and "isCacheExpired c e w = (Inr expired, w)"
  shows "getAllAds c e w =
     (Inr ads,
      if expired
      then w\<lparr>requests := requests w @ [API_URL c], detached := detached w @ [API_URL c]\<rparr>
      else w)"
  using assms by (simp add: getAllAds_def await_def detach_def send_request_def)

subsection \<open>Decimal timestamps are read back as written\<close>

lemma is_digit_char_of_digit: "d < 10 \<Longrightarrow> is_digit (char_of_digit d)"
  by (simp add: is_digit_def char_of_digit_def)

lemma digit_of_char_of_digit: "d < 10 \<Longrightarrow> digit_of (char_of_digit d) = d"
  by (simp add: digit_of_def char_of_digit_def)

lemma is_digit_not_space: "is_digit ch \<Longrightarrow> \<not> is_space ch"
  by (auto simp: is_digit_def is_space_def)

lemma is_digit_not_sign: "is_digit ch \<Longrightarrow> ch \<noteq> CHR ''-'' \<and> ch \<noteq> CHR ''+''"
  by (auto simp: is_digit_def)

lemma minus_not_space: "\<not> is_space CHR ''-''"
  by (simp add: is_space_def)

lemma decimal_digits: "ch \<in> set (decimal n) \<Longrightarrow> is_digit ch"
proof (induction n rule: decimal.induct)
  case (1 n)
  show ?case
  proof (cases "n < 10")
    case True
    with "1.prems" show ?thesis
      by (simp add: decimal.simps [of n] is_digit_char_of_digit)
  next
    case False
    with "1.prems" "1.IH" show ?thesis
      by (auto simp: decimal.simps [of n] is_digit_char_of_digit)
  qed
qed

lemma decimal_nonempty: "decimal n \<noteq> []"
  by (subst decimal.simps) simp

lemma digits_value_append:
  "digits_value acc (xs @ ys) = digits_value (digits_value acc xs) ys"
  by (induction xs arbitrary: acc) simp_all

lemma digits_value_decimal: "digits_value 0 (decimal n) = n"
proof (induction n rule: decimal.induct)
  case (1 n)
  show ?case
  proof (cases "n < 10")
    case True
    then show ?thesis
      by (simp add: decimal.simps [of n] digit_of_char_of_digit)
  next
    case False
    then have "digits_value 0 (decimal n) = n div 10 * 10 + n mod 10"
      using "1.IH" by (simp add: decimal.simps [of n] digits_value_append digit_of_char_of_digit)
    then show ?thesis by simp
  qed
qed

lemma takeWhile_decimal: "takeWhile is_digit (decimal n) = decimal n"
  by (simp add: decimal_digits)

lemma hd_decimal_digit: "is_digit (hd (decimal n))"
  using decimal_nonempty [of n] decimal_digits [of "hd (decimal n)" n] by simp

lemma dropWhile_decimal: "dropWhile is_space (decimal n) = decimal n"
  using hd_decimal_digit [of n] decimal_nonempty [of n]
  by (cases "decimal n") (simp_all add: is_digit_not_space)

lemma parseInt_toString: "parseInt (toString i) = Some i"
proof (cases "i < 0")
  case True
  then show ?thesis
    by (simp add: parseInt_def toString_def minus_not_space takeWhile_decimal
        decimal_nonempty digits_value_decimal)
next
  case False
  have "hd (decimal (nat i)) \<noteq> CHR ''-''" "hd (decimal (nat i)) \<noteq> CHR ''+''"
    using hd_decimal_digit [of "nat i"] is_digit_not_sign by blast+
  with False show ?thesis
    by (simp add: parseInt_def toString_def dropWhile_decimal takeWhile_decimal
        decimal_nonempty digits_value_decimal)
qed

lemma toString_nonempty: "toString i \<noteq> []"
  by (simp add: toString_def decimal_nonempty)

lemma keys_distinct: "CACHE_KEY \<noteq> CACHE_TIMESTAMP_KEY"
  by (simp add: CACHE_KEY_def CACHE_TIMESTAMP_KEY_def)

lemma parseInt_1000: "parseInt ''1000'' = Some 1000"
  by code_simp

lemma toString_1000: "toString 1000 = ''1000''"
  by code_simp


lemma clearAdsCache_eq:
  "clearAdsCache e w =
     (if removeItem_throws e CACHE_KEY then (Inl StorageFailure, w)
      else if removeItem_throws e CACHE_TIMESTAMP_KEY
        then (Inl StorageFailure, w\<lparr>store := (store w)(CACHE_KEY := None)\<rparr>)
        else (Inr (), w\<lparr>store := (store w)(CACHE_KEY := None, CACHE_TIMESTAMP_KEY := None)\<rparr>))"
  by (simp add: clearAdsCache_def await_def storage_removeItem_def)

lemma refreshAds_eq:
  "refreshAds c e w =
     (case fst (settle c e (API_URL c) w) of
        Inl err \<Rightarrow> (Inl err, w\<lparr>requests := requests w @ [API_URL c]\<rparr>)
      | Inr freshAds \<Rightarrow>
          (Inr freshAds, snd (setCachedAds e freshAds (w\<lparr>requests := requests w @ [API_URL c]\<rparr>))))"
  by (simp add: refreshAds_def await_def fetchAdsFromAPI_eq setCachedAds_eq split: sum.splits)

lemma sample_fetch:
  "fst (settle initial_config (online_env (Some [sample_service]) now\<lparr>setItem_throws := throws\<rparr>)
          url w) = Inr [sample_ad]"
  by (simp add: settle_def receive_def await_def online_env_def sample_response_def
      readResponse_def ok_def response_json_def sample_ad_def)

lemma colorMap_unknown:
  "token \<notin> {''#0E668B'', ''#1E9E70'', ''#723B80'', ''#EEA444'', ''#D63C83''}
     \<Longrightarrow> token \<notin> set Object_prototype_keys \<Longrightarrow> colorMap token = None"
  by (simp add: colorMap_def object_literal_def)

lemma colorMap_inherited:
  "token \<in> set Object_prototype_keys \<Longrightarrow> colorMap token = Some (Inherited token)"
  by (auto simp: colorMap_def object_literal_def Object_prototype_keys_def)

lemma iconMap_unknown:
  "ident \<notin> {''app-development'', ''website-building'', ''game-development'', ''tutoring'',
      ''online-presence''} \<Longrightarrow> ident \<notin> set Object_prototype_keys \<Longrightarrow> iconMap ident = None"
  by (simp add: iconMap_def object_literal_def)

lemma iconMap_inherited:
  "ident \<in> set Object_prototype_keys \<Longrightarrow> iconMap ident = Some (Inherited ident)"
  by (auto simp: iconMap_def object_literal_def Object_prototype_keys_def)

lemma fetchAdsFromAPI_ok:
  assumes "remote e (API_URL c) = Some r" and "ok r" and "body r = Json payload"
  shows "fst (fetchAdsFromAPI c e w) =
     Inr (map (transformService c) (case services payload of Some ss \<Rightarrow> ss | None \<Rightarrow> []))"
  using assms settle_Inr_iff [of c e "API_URL c" w]
  by (simp add: fetchAdsFromAPI_eq)

lemma getAllAds_absent_frame:
  assumes "store w CACHE_KEY = None" and "store w' CACHE_KEY = None"
    and "requests w' = requests w" and "detached w' = detached w"
  shows "fst (getAllAds c e w') = fst (getAllAds c e w)
     \<and> requests (snd (getAllAds c e w')) = requests w @ [API_URL c]
     \<and> requests (snd (getAllAds c e w)) = requests w @ [API_URL c]
     \<and> detached (snd (getAllAds c e w')) = detached w
     \<and> detached (snd (getAllAds c e w)) = detached w
     \<and> store (snd (getAllAds c e w')) CACHE_KEY = store (snd (getAllAds c e w)) CACHE_KEY
     \<and> (store w' CACHE_TIMESTAMP_KEY = store w CACHE_TIMESTAMP_KEY \<longrightarrow>
          store (snd (getAllAds c e w')) CACHE_TIMESTAMP_KEY
            = store (snd (getAllAds c e w)) CACHE_TIMESTAMP_KEY)"
proof -
  have same: "fst (settle c e (API_URL c) w') = fst (settle c e (API_URL c) w)"
    by (rule settle_indep)
  show ?thesis
    using getAllAds_absent [OF getCachedAds_absent [OF assms(1)], of c]
      getAllAds_absent [OF getCachedAds_absent [OF assms(2)], of c] same assms
    by (simp add: setCachedAds_eq split: sum.splits)
qed

lemma backgroundRefresh_eq:
  "backgroundRefresh c e url w =
     (Inr (),
      case fst (settle c e url w) of
        Inl err \<Rightarrow> w
      | Inr freshAds \<Rightarrow> snd (setCachedAds e freshAds w))"
proof (cases "fst (settle c e url w)")
  case (Inl err)
  then have "settle c e url w = (Inl err, w)"
    using settle_eq [of c e url w w] by simp
  then show ?thesis
    using Inl by (simp add: backgroundRefresh_def try_catch_def await_def)
next
  case (Inr freshAds)
  then have "settle c e url w = (Inr freshAds, w)"
    using settle_eq [of c e url w w] by simp
  then show ?thesis
    using Inr by (simp add: backgroundRefresh_def try_catch_def await_def setCachedAds_eq)
qed

lemma getAllAds_reads_written:
  assumes "store w CACHE_KEY = Some (JSON_stringify e ads)"
    and "store w CACHE_TIMESTAMP_KEY = Some (toString n)"
    and "\<not> getItem_throws e' CACHE_KEY" and "\<not> getItem_throws e' CACHE_TIMESTAMP_KEY"
    and "JSON_stringify e ads \<noteq> []" and "JSON_parse e' (JSON_stringify e ads) = Ads ads"
  shows "getAllAds c' e' w =
     (Inr ads,
      if now_at_read e' - n > CACHE_DURATION c'
      then w\<lparr>requests := requests w @ [API_URL c'], detached := detached w @ [API_URL c']\<rparr>
      else w)"
proof -
  have hit: "getCachedAds e' w = (Inr (Some ads), w)"
    using assms(3,1,5,6) by (rule getCachedAds_hit)
  have age: "isCacheExpired c' e' w = (Inr (now_at_read e' - n > CACHE_DURATION c'), w)"
    using assms(4,2) parseInt_toString by (rule isCacheExpired_age)
  show ?thesis
    using getAllAds_cached [OF hit age] .
qed

lemma sample_fetch_plain:
  "fst (settle initial_config (online_env (Some [sample_service]) now) url w) = Inr [sample_ad]"
  using sample_fetch [where now = now and throws = "\<lambda>key. False" and url = url and w = w]
  by (simp add: online_env_def)

lemma stale_example:
  "getAllAds initial_config late_write_failure_env (cached_world ''[]'' ''1000'')
     = (Inr [], (cached_world ''[]'' ''1000'')
                  \<lparr>requests := [API_URL initial_config], detached := [API_URL initial_config]\<rparr>)"
proof -
  have hit: "getCachedAds late_write_failure_env (cached_world ''[]'' ''1000'')
      = (Inr (Some []), cached_world ''[]'' ''1000'')"
    by (rule getCachedAds_hit [where d = "''[]''"])
      (simp_all add: late_write_failure_env_def online_env_def cached_world_def table_parse_def
        keys_distinct)
  have age: "isCacheExpired initial_config late_write_failure_env (cached_world ''[]'' ''1000'')
      = (Inr True, cached_world ''[]'' ''1000'')"
    using isCacheExpired_age [where e = late_write_failure_env
        and w = "cached_world ''[]'' ''1000''" and t = "''1000''" and written = 1000
        and c = initial_config]
    by (simp add: late_write_failure_env_def online_env_def cached_world_def parseInt_1000
        initial_config_def)
  show ?thesis
    using getAllAds_cached [OF hit age] by (simp add: cached_world_def)
qed

lemma fallbackAds_nonempty: "fallbackAds \<noteq> []"
  by (simp add: fallbackAds_def)

lemma empty_fetch: "fst (settle c (online_env (Some []) now\<lparr>setItem_throws := throws\<rparr>) url w) = Inr []"
  by (simp add: settle_def receive_def await_def online_env_def sample_response_def
      readResponse_def ok_def response_json_def)

lemma relocated_config_eq:
  "relocated_config =
     \<lparr>API_URL = ''https://example.org/api/content'',
      INTAKE_BASE_URL = ''https://example.org'',
      CACHE_DURATION = 60000\<rparr>"
  by (simp add: relocated_config_def initializeAdsSDK_def removeTrailingSlash_def
      initial_config_def)

lemma sample_ad_ctaUrl: "ctaUrl sample_ad = ''https://davidjgrimsley.com/intake/tutoring''"
  by (simp add: sample_ad_def transformService_def sample_service_def initial_config_def)

lemma ctaUrl_transformService:
  "ctaUrl (transformService c s) = INTAKE_BASE_URL c @ intakeUrl s"
  by (simp add: transformService_def)

lemma features_transformService:
  "features (transformService c s) = Some (case service_features s of Some fs \<Rightarrow> fs | None \<Rightarrow> [])"
  by (simp add: transformService_def)

lemma accentColor_transformService:
  "accentColor (transformService c s) =
     (if accent s \<in> set Object_prototype_keys then Inherited (accent s)
      else if accent s = ''#0E668B'' then Plain blue
      else if accent s = ''#1E9E70'' then Plain green
      else if accent s = ''#723B80'' then Plain purple
      else if accent s = ''#EEA444'' then Plain orange
      else if accent s = ''#D63C83'' then Plain pink
      else Plain blue)"
  by (auto simp: transformService_def colorMap_def object_literal_def Object_prototype_keys_def)

lemma icon_transformService:
  "icon (transformService c s) =
     (if service_id s \<in> set Object_prototype_keys then Inherited (service_id s)
      else if service_id s = ''app-development'' then Plain ''phone-portrait-outline''
      else if service_id s = ''website-building'' then Plain ''globe-outline''
      else if service_id s = ''game-development'' then Plain ''game-controller-outline''
      else if service_id s = ''tutoring'' then Plain ''school-outline''
      else if service_id s = ''online-presence'' then Plain ''trending-up-outline''
      else Plain ''information-circle-outline'')"
  by (auto simp: transformService_def iconMap_def object_literal_def Object_prototype_keys_def)

section \<open>The claims\<close>

text \<open>
  C1. Whatever the cache holds and whichever of the storage calls and the remote source
  fail, \<^verbatim>\<open>getAllAds()\<close> resolves: it returns the cached list when \<^verbatim>\<open>getCachedAds\<close>
  finds one (the payload key is read and its string parses to a list, see
  \<open>getCachedAds_Some_iff\<close>), else the list just fetched when the fetch succeeded with a
  list that is not empty (see \<open>settle_Inr_iff\<close>), else the static fallback list. A fetch
  that yields the empty list is served by the fallback list, like a failed one.
\<close>

theorem getAllAds_never_rejects:
  "fst (getAllAds c e w) =
     Inr (let cachedAds = (case fst (getCachedAds e w) of Inr found \<Rightarrow> found | Inl err \<Rightarrow> None);
              freshAds = (case fst (settle c e (API_URL c) w) of
                            Inr ads \<Rightarrow> if ads \<noteq> [] then Some ads else None
                          | Inl err \<Rightarrow> None)
          in case cachedAds of
               Some ads \<Rightarrow> ads
             | None \<Rightarrow> (case freshAds of Some ads \<Rightarrow> ads | None \<Rightarrow> fallbackAds))"
proof -
  obtain found where found: "getCachedAds e w = (Inr found, w)"
    using getCachedAds_run by blast
  obtain expired where expired: "isCacheExpired c e w = (Inr expired, w)"
    using isCacheExpired_run by blast
  show ?thesis
  proof (cases found)
    case (Some ads)
    with found expired show ?thesis
      using getAllAds_cached [of e w ads c expired] by simp
  next
    case None
    with found show ?thesis
      by (simp add: getAllAds_absent split: sum.splits)
  qed
qed

theorem getAllAds_never_rejects_witness:
  "fst (getAllAds initial_config offline_env (cached_world ''[]'' ''1000'')) = Inr fallbackAds"
  using getAllAds_never_rejects [of initial_config offline_env "cached_world ''[]'' ''1000''"]
  by (simp add: offline_env_def getCachedAds_def settle_def receive_def await_def try_catch_def
      storage_getItem_def)

text \<open>
  C2, as stated, fails where it says that a successful background fetch overwrites both
  keys. The cache is stale, \<^verbatim>\<open>getAllAds()\<close> returns the cached list and detaches one
  request; the fetch succeeds; the store takes the payload and throws on the timestamp.
  \<^verbatim>\<open>setCachedAds\<close> catches the failure: the payload key is overwritten and the
  timestamp key still holds the old timestamp.
\<close>

theorem stale_refresh_write_failure:
  "fst (getAllAds initial_config late_write_failure_env (cached_world ''[]'' ''1000'')) = Inr []
   \<and> detached (snd (getAllAds initial_config late_write_failure_env (cached_world ''[]'' ''1000'')))
       = [API_URL initial_config]
   \<and> fst (settle initial_config late_write_failure_env (API_URL initial_config)
            (snd (getAllAds initial_config late_write_failure_env (cached_world ''[]'' ''1000''))))
       = Inr [sample_ad]
   \<and> store (snd (backgroundRefresh initial_config late_write_failure_env (API_URL initial_config)
            (snd (getAllAds initial_config late_write_failure_env (cached_world ''[]'' ''1000'')))))
         CACHE_TIMESTAMP_KEY = Some ''1000''
   \<and> store (snd (backgroundRefresh initial_config late_write_failure_env (API_URL initial_config)
            (snd (getAllAds initial_config late_write_failure_env (cached_world ''[]'' ''1000'')))))
         CACHE_KEY = Some ''[tutoring]''
   \<and> now_at_write late_write_failure_env = 3700000"
proof -
  have fetched: "fst (settle initial_config late_write_failure_env url w) = Inr [sample_ad]" for url w
    unfolding late_write_failure_env_def by (rule sample_fetch)
  have throws: "\<not> setItem_throws late_write_failure_env CACHE_KEY"
    "setItem_throws late_write_failure_env CACHE_TIMESTAMP_KEY"
    "now_at_write late_write_failure_env = 3700000"
    by (simp_all add: late_write_failure_env_def online_env_def keys_distinct)
  have codec: "JSON_stringify late_write_failure_env [sample_ad] = ''[tutoring]''"
    by (simp add: late_write_failure_env_def online_env_def table_stringify_def)
  have kept: "store (snd (backgroundRefresh initial_config late_write_failure_env url
      ((cached_world ''[]'' ''1000'')\<lparr>requests := r, detached := q\<rparr>))) CACHE_TIMESTAMP_KEY
      = Some ''1000''"
    "store (snd (backgroundRefresh initial_config late_write_failure_env url
      ((cached_world ''[]'' ''1000'')\<lparr>requests := r, detached := q\<rparr>))) CACHE_KEY
      = Some ''[tutoring]''" for url r q
    by (simp_all add: backgroundRefresh_eq fetched setCachedAds_eq throws cached_world_def
        keys_distinct keys_distinct [symmetric] codec)
  show ?thesis
    by (simp add: stale_example fetched kept throws)
qed

text \<open>
  C2, amended. In the Stale state (both keys are read, the payload parses to a list, and
  the age is above \<^verbatim>\<open>CACHE_DURATION\<close>), \<^verbatim>\<open>getAllAds()\<close> returns the cached list,
  sends exactly one request and detaches it, and writes nothing. Whenever the detached
  chain runs, in whatever configuration, environment and world it then finds: it never
  rejects and sends no further request; when the fetch fails the world is untouched;
  when the fetch succeeds and the store accepts both writes, both keys are overwritten,
  with the fresh list and the time of the write, while a write that throws is swallowed
  (nothing is written when the payload write throws, only the payload when the timestamp
  write throws). After a refresh that wrote both keys, a later call that reads them, on a
  runtime whose \<^verbatim>\<open>JSON.parse\<close> inverts \<^verbatim>\<open>JSON.stringify\<close>, returns the fresh list.
\<close>

theorem stale_cache_revalidates:
  assumes "\<not> getItem_throws e CACHE_KEY" and "\<not> getItem_throws e CACHE_TIMESTAMP_KEY"
    and "store w CACHE_KEY = Some d" and "d \<noteq> []" and "JSON_parse e d = Ads ads"
    and "store w CACHE_TIMESTAMP_KEY = Some t" and "parseInt t = Some written"
    and "now_at_read e - written > CACHE_DURATION c"
  shows "getAllAds c e w =
      (Inr ads, w\<lparr>requests := requests w @ [API_URL c], detached := detached w @ [API_URL c]\<rparr>)
   \<and> (\<forall>c' e' w'.
        fst (backgroundRefresh c' e' (API_URL c) w') = Inr ()
        \<and> requests (snd (backgroundRefresh c' e' (API_URL c) w')) = requests w'
        \<and> (\<forall>err. fst (settle c' e' (API_URL c) w') = Inl err \<longrightarrow>
              snd (backgroundRefresh c' e' (API_URL c) w') = w')
        \<and> (\<forall>freshAds. fst (settle c' e' (API_URL c) w') = Inr freshAds \<longrightarrow>
              store (snd (backgroundRefresh c' e' (API_URL c) w')) =
                (if setItem_throws e' CACHE_KEY then store w'
                 else if setItem_throws e' CACHE_TIMESTAMP_KEY
                   then (store w')(CACHE_KEY \<mapsto> JSON_stringify e' freshAds)
                   else (store w')(CACHE_KEY \<mapsto> JSON_stringify e' freshAds,
                                   CACHE_TIMESTAMP_KEY \<mapsto> toString (now_at_write e'))))
        \<and> (\<forall>freshAds c'' e''. fst (settle c' e' (API_URL c) w') = Inr freshAds
              \<and> \<not> setItem_throws e' CACHE_KEY \<and> \<not> setItem_throws e' CACHE_TIMESTAMP_KEY
              \<and> \<not> getItem_throws e'' CACHE_KEY \<and> \<not> getItem_throws e'' CACHE_TIMESTAMP_KEY
              \<and> JSON_stringify e' freshAds \<noteq> []
              \<and> JSON_parse e'' (JSON_stringify e' freshAds) = Ads freshAds \<longrightarrow>
              fst (getAllAds c'' e'' (snd (backgroundRefresh c' e' (API_URL c) w'))) = Inr freshAds))"
proof -
  have hit: "getCachedAds e w = (Inr (Some ads), w)"
    using assms(1,3,4,5) by (rule getCachedAds_hit)
  have age: "isCacheExpired c e w = (Inr True, w)"
    using isCacheExpired_age [OF assms(2,6,7), of c] assms(8) by simp
  have served: "getAllAds c e w =
      (Inr ads, w\<lparr>requests := requests w @ [API_URL c], detached := detached w @ [API_URL c]\<rparr>)"
    using getAllAds_cached [OF hit age] by simp
  have later: "fst (backgroundRefresh c' e' (API_URL c) w') = Inr ()
        \<and> requests (snd (backgroundRefresh c' e' (API_URL c) w')) = requests w'
        \<and> (\<forall>err. fst (settle c' e' (API_URL c) w') = Inl err \<longrightarrow>
              snd (backgroundRefresh c' e' (API_URL c) w') = w')
        \<and> (\<forall>freshAds. fst (settle c' e' (API_URL c) w') = Inr freshAds \<longrightarrow>
              store (snd (backgroundRefresh c' e' (API_URL c) w')) =
                (if setItem_throws e' CACHE_KEY then store w'
                 else if setItem_throws e' CACHE_TIMESTAMP_KEY
                   then (store w')(CACHE_KEY \<mapsto> JSON_stringify e' freshAds)
                   else (store w')(CACHE_KEY \<mapsto> JSON_stringify e' freshAds,
                                   CACHE_TIMESTAMP_KEY \<mapsto> toString (now_at_write e'))))"
    for c' e' w'
    by (simp add: backgroundRefresh_eq setCachedAds_eq split: sum.splits)
  have seen: "fst (getAllAds c'' e'' (snd (backgroundRefresh c' e' (API_URL c) w'))) = Inr freshAds"
    if "fst (settle c' e' (API_URL c) w') = Inr freshAds
        \<and> \<not> setItem_throws e' CACHE_KEY \<and> \<not> setItem_throws e' CACHE_TIMESTAMP_KEY
        \<and> \<not> getItem_throws e'' CACHE_KEY \<and> \<not> getItem_throws e'' CACHE_TIMESTAMP_KEY
        \<and> JSON_stringify e' freshAds \<noteq> []
        \<and> JSON_parse e'' (JSON_stringify e' freshAds) = Ads freshAds"
    for c' e' w' freshAds c'' e''
  proof -
    let ?w2 = "snd (backgroundRefresh c' e' (API_URL c) w')"
    have written: "store ?w2 CACHE_KEY = Some (JSON_stringify e' freshAds)"
      "store ?w2 CACHE_TIMESTAMP_KEY = Some (toString (now_at_write e'))"
      using that by (simp_all add: backgroundRefresh_eq setCachedAds_eq keys_distinct)
    show ?thesis
      using getAllAds_reads_written [OF written, where e' = e'' and c' = c''] that by simp
  qed
  show ?thesis
    apply (rule conjI)
     apply (rule served)
    apply (intro allI)
    apply (rule conjI)
     apply (rule later [THEN conjunct1])
    apply (rule conjI)
     apply (rule later [THEN conjunct2, THEN conjunct1])
    apply (rule conjI)
     apply (rule later [THEN conjunct2, THEN conjunct2, THEN conjunct1])
    apply (rule conjI)
     apply (rule later [THEN conjunct2, THEN conjunct2, THEN conjunct2])
    apply (intro allI impI)
    apply (erule seen)
    done
qed

theorem stale_cache_revalidates_witness:
  "getAllAds initial_config (online_env (Some [sample_service]) 3700000)
      (cached_world ''[]'' ''1000'')
     = (Inr [], (cached_world ''[]'' ''1000'')
                  \<lparr>requests := [API_URL initial_config], detached := [API_URL initial_config]\<rparr>)
   \<and> backgroundRefresh initial_config offline_env (API_URL initial_config)
        (cached_world ''[]'' ''1000'') = (Inr (), cached_world ''[]'' ''1000'')
   \<and> store (snd (backgroundRefresh initial_config (online_env (Some [sample_service]) 3700000)
        (API_URL initial_config) (cached_world ''[]'' ''1000'')))
       = [CACHE_KEY \<mapsto> ''[tutoring]'', CACHE_TIMESTAMP_KEY \<mapsto> toString 3700000]"
proof -
  let ?e = "online_env (Some [sample_service]) 3700000"
  let ?w = "cached_world ''[]'' ''1000''"
  have stale: "\<not> getItem_throws ?e CACHE_KEY" "\<not> getItem_throws ?e CACHE_TIMESTAMP_KEY"
    "store ?w CACHE_KEY = Some ''[]''" "''[]'' \<noteq> []" "JSON_parse ?e ''[]'' = Ads []"
    "store ?w CACHE_TIMESTAMP_KEY = Some ''1000''" "parseInt ''1000'' = Some 1000"
    "now_at_read ?e - 1000 > CACHE_DURATION initial_config"
    by (simp_all add: online_env_def cached_world_def table_parse_def keys_distinct parseInt_1000
        initial_config_def)
  note t = stale_cache_revalidates [OF stale]
  have fails: "fst (settle initial_config offline_env (API_URL initial_config) ?w) = Inl NetworkFailure"
    by (simp add: settle_def receive_def await_def offline_env_def)
  have fetched: "fst (settle initial_config ?e (API_URL initial_config) ?w) = Inr [sample_ad]"
    by (rule sample_fetch_plain)
  from t have served: "getAllAds initial_config ?e ?w
      = (Inr [], ?w\<lparr>requests := requests ?w @ [API_URL initial_config],
                     detached := detached ?w @ [API_URL initial_config]\<rparr>)"
    by (rule conjunct1)
  from t fails have untouched: "fst (backgroundRefresh initial_config offline_env
        (API_URL initial_config) ?w) = Inr ()
      \<and> snd (backgroundRefresh initial_config offline_env (API_URL initial_config) ?w) = ?w"
    by blast
  from t fetched have overwritten: "store (snd (backgroundRefresh initial_config ?e
        (API_URL initial_config) ?w)) =
      (if setItem_throws ?e CACHE_KEY then store ?w
       else if setItem_throws ?e CACHE_TIMESTAMP_KEY
         then (store ?w)(CACHE_KEY \<mapsto> JSON_stringify ?e [sample_ad])
         else (store ?w)(CACHE_KEY \<mapsto> JSON_stringify ?e [sample_ad],
                         CACHE_TIMESTAMP_KEY \<mapsto> toString (now_at_write ?e)))"
    by blast
  have codec: "JSON_stringify ?e [sample_ad] = ''[tutoring]''" "\<not> setItem_throws ?e key"
    "now_at_write ?e = 3700000" for key
    by (simp_all add: online_env_def table_stringify_def)
  show ?thesis
    using served untouched overwritten
    by (simp add: codec prod_eq_iff) (simp add: cached_world_def)
qed

text \<open>
  C3. When the store holds no payload (the Absent state) and the fetch fails,
  \<^verbatim>\<open>getAllAds()\<close> returns the static fallback list, which has four entries, and
  writes nothing: the world differs only by the request that was sent. The cache is
  therefore still absent, and the next call, under any configuration and environment,
  sends a request of its own and awaits it.
\<close>

theorem absent_failure_serves_fallback:
  assumes "store w CACHE_KEY = None" and "fst (settle c e (API_URL c) w) = Inl err"
  shows "getAllAds c e w = (Inr fallbackAds, w\<lparr>requests := requests w @ [API_URL c]\<rparr>)
       \<and> length fallbackAds = 4
       \<and> (\<forall>c' e'. requests (snd (getAllAds c' e' (snd (getAllAds c e w))))
                      = requests w @ [API_URL c, API_URL c']
                  \<and> detached (snd (getAllAds c' e' (snd (getAllAds c e w)))) = detached w)"
proof -
  let ?w1 = "w\<lparr>requests := requests w @ [API_URL c]\<rparr>"
  have first: "getAllAds c e w = (Inr fallbackAds, ?w1)"
    using getAllAds_absent [OF getCachedAds_absent [OF assms(1)], of c] assms(2) by simp
  have still: "store ?w1 CACHE_KEY = None"
    using assms(1) by simp
  have "requests (snd (getAllAds c' e' ?w1)) = requests w @ [API_URL c, API_URL c']
      \<and> detached (snd (getAllAds c' e' ?w1)) = detached w" for c' e'
    using getAllAds_absent [OF getCachedAds_absent [OF still], of c' e']
    by (simp add: setCachedAds_eq split: sum.splits)
  with first show ?thesis
    by (simp add: fallbackAds_def)
qed

theorem absent_failure_serves_fallback_witness:
  "getAllAds initial_config offline_env empty_world
     = (Inr fallbackAds, empty_world\<lparr>requests := [API_URL initial_config]\<rparr>)
   \<and> length fallbackAds = 4
   \<and> requests (snd (getAllAds initial_config (online_env None 0)
                      (snd (getAllAds initial_config offline_env empty_world))))
       = [API_URL initial_config, API_URL initial_config]"
proof -
  have absent: "store empty_world CACHE_KEY = None"
    by (simp add: empty_world_def)
  have fails: "fst (settle initial_config offline_env (API_URL initial_config) empty_world)
      = Inl NetworkFailure"
    by (simp add: settle_def receive_def await_def offline_env_def)
  note first_call = absent_failure_serves_fallback [OF absent fails]
  from first_call have "requests (snd (getAllAds initial_config (online_env None 0)
      (snd (getAllAds initial_config offline_env empty_world))))
      = requests empty_world @ [API_URL initial_config, API_URL initial_config]"
    by blast
  with first_call show ?thesis
    by (simp add: empty_world_def)
qed

text \<open>
  C4. \<^verbatim>\<open>refreshAds()\<close> sends a request whatever the store holds. When the fetch
  fails it rejects with the fetch's error and the store is as before. When the fetch
  succeeds it returns the fresh list, also when a storage write throws; the last
  conjunct says what is then written.
\<close>

theorem refreshAds_contract:
  "requests (snd (refreshAds c e w)) = requests w @ [API_URL c]
   \<and> (\<forall>err. fst (settle c e (API_URL c) w) = Inl err \<longrightarrow>
         refreshAds c e w = (Inl err, w\<lparr>requests := requests w @ [API_URL c]\<rparr>))
   \<and> (\<forall>freshAds. fst (settle c e (API_URL c) w) = Inr freshAds \<longrightarrow>
         fst (refreshAds c e w) = Inr freshAds
         \<and> store (snd (refreshAds c e w)) =
             (if setItem_throws e CACHE_KEY then store w
              else if setItem_throws e CACHE_TIMESTAMP_KEY
                then (store w)(CACHE_KEY \<mapsto> JSON_stringify e freshAds)
                else (store w)(CACHE_KEY \<mapsto> JSON_stringify e freshAds,
                               CACHE_TIMESTAMP_KEY \<mapsto> toString (now_at_write e))))"
  by (simp add: refreshAds_eq setCachedAds_eq split: sum.splits)

theorem refreshAds_contract_witness:
  "refreshAds initial_config offline_env (cached_world ''[]'' ''1000'')
     = (Inl NetworkFailure, (cached_world ''[]'' ''1000'')\<lparr>requests := [API_URL initial_config]\<rparr>)
   \<and> fst (refreshAds initial_config
            (online_env (Some [sample_service]) 2000\<lparr>setItem_throws := (\<lambda>key. True)\<rparr>)
            (cached_world ''[]'' ''1000'')) = Inr [sample_ad]
   \<and> store (snd (refreshAds initial_config
            (online_env (Some [sample_service]) 2000\<lparr>setItem_throws := (\<lambda>key. True)\<rparr>)
            (cached_world ''[]'' ''1000''))) = store (cached_world ''[]'' ''1000'')"
proof -
  have fails: "fst (settle initial_config offline_env (API_URL initial_config)
      (cached_world ''[]'' ''1000'')) = Inl NetworkFailure"
    by (simp add: settle_def receive_def await_def offline_env_def)
  show ?thesis
    using refreshAds_contract [of initial_config offline_env "cached_world ''[]'' ''1000''"]
      refreshAds_contract [of initial_config
        "online_env (Some [sample_service]) 2000\<lparr>setItem_throws := (\<lambda>key. True)\<rparr>"
        "cached_world ''[]'' ''1000''"]
      fails sample_fetch [where now = 2000 and throws = "\<lambda>key. True"
        and url = "API_URL initial_config" and w = "cached_world ''[]'' ''1000''"]
    by (simp add: cached_world_def)
qed

text \<open>
  C5. In the Fresh state (both keys are read, the payload parses to a list, and the age
  that the clock and the stored timestamp give is at most \<^verbatim>\<open>CACHE_DURATION\<close>),
  \<^verbatim>\<open>getAllAds()\<close> returns the cached list and leaves the world as it was: no request
  is sent, none is detached, nothing is written.
\<close>

theorem fresh_cache_served:
  assumes "\<not> getItem_throws e CACHE_KEY" and "\<not> getItem_throws e CACHE_TIMESTAMP_KEY"
    and "store w CACHE_KEY = Some d" and "d \<noteq> []" and "JSON_parse e d = Ads ads"
    and "store w CACHE_TIMESTAMP_KEY = Some t" and "parseInt t = Some written"
    and "now_at_read e - written \<le> CACHE_DURATION c"
  shows "getAllAds c e w = (Inr ads, w)"
proof -
  have hit: "getCachedAds e w = (Inr (Some ads), w)"
    using assms(1,3,4,5) by (rule getCachedAds_hit)
  have age: "isCacheExpired c e w = (Inr False, w)"
    using isCacheExpired_age [OF assms(2,6,7), of c] assms(8) by simp
  show ?thesis
    using getAllAds_cached [OF hit age] by simp
qed

theorem fresh_cache_served_witness:
  "getAllAds initial_config (online_env None 2000) (cached_world ''[tutoring]'' ''1000'')
     = (Inr [sample_ad], cached_world ''[tutoring]'' ''1000'')"
proof -
  have "getAllAds initial_config (online_env None 2000) (cached_world ''[tutoring]'' ''1000'')
     = (Inr [sample_ad], cached_world ''[tutoring]'' ''1000'')"
    by (rule fresh_cache_served [where d = "''[tutoring]''" and t = "''1000''" and written = 1000])
      (simp_all add: online_env_def cached_world_def table_parse_def keys_distinct
        parseInt_1000 initial_config_def)
  then show ?thesis .
qed

text \<open>
  C6, as stated, fails: with the payload removed and the removal of the timestamp
  throwing, exactly one removal fails and \<^verbatim>\<open>clearAdsCache()\<close> rejects.
\<close>

theorem clearAdsCache_one_failure_rejects:
  "\<not> removeItem_throws (online_env None 0\<lparr>removeItem_throws := (\<lambda>key. key = CACHE_TIMESTAMP_KEY)\<rparr>)
       CACHE_KEY
   \<and> removeItem_throws (online_env None 0\<lparr>removeItem_throws := (\<lambda>key. key = CACHE_TIMESTAMP_KEY)\<rparr>)
       CACHE_TIMESTAMP_KEY
   \<and> fst (clearAdsCache (online_env None 0\<lparr>removeItem_throws := (\<lambda>key. key = CACHE_TIMESTAMP_KEY)\<rparr>)
            (cached_world ''[]'' ''1000'')) = Inl StorageFailure"
  by (simp add: clearAdsCache_def await_def storage_removeItem_def keys_distinct)

text \<open>
  C6, amended. \<^verbatim>\<open>clearAdsCache()\<close> has no handler: it rejects with the storage
  failure exactly when one of the two removals throws, and resolves exactly when neither
  does, whatever the store held before (an absent cache is not an error). When the
  removal of the payload throws, the timestamp is not touched; when only the removal of
  the timestamp throws, the payload is gone and the call still rejects.
\<close>

theorem clearAdsCache_rejects_on_any_failure:
  "(fst (clearAdsCache e w) = Inl StorageFailure \<longleftrightarrow>
      removeItem_throws e CACHE_KEY \<or> removeItem_throws e CACHE_TIMESTAMP_KEY)
   \<and> (fst (clearAdsCache e w) = Inr () \<longleftrightarrow>
      \<not> removeItem_throws e CACHE_KEY \<and> \<not> removeItem_throws e CACHE_TIMESTAMP_KEY)
   \<and> store (snd (clearAdsCache e w)) =
       (if removeItem_throws e CACHE_KEY then store w
        else if removeItem_throws e CACHE_TIMESTAMP_KEY then (store w)(CACHE_KEY := None)
        else (store w)(CACHE_KEY := None, CACHE_TIMESTAMP_KEY := None))"
  by (simp add: clearAdsCache_eq)

theorem clearAdsCache_rejects_on_any_failure_witness:
  "fst (clearAdsCache (online_env None 0) empty_world) = Inr ()
   \<and> store (snd (clearAdsCache (online_env None 0) empty_world)) = Map.empty
   \<and> fst (clearAdsCache (online_env None 0\<lparr>removeItem_throws := (\<lambda>key. key = CACHE_KEY)\<rparr>)
            (cached_world ''[]'' ''1000'')) = Inl StorageFailure
   \<and> store (snd (clearAdsCache (online_env None 0\<lparr>removeItem_throws := (\<lambda>key. key = CACHE_KEY)\<rparr>)
            (cached_world ''[]'' ''1000''))) = store (cached_world ''[]'' ''1000'')"
  using clearAdsCache_rejects_on_any_failure [of "online_env None 0" empty_world]
    clearAdsCache_rejects_on_any_failure
      [of "online_env None 0\<lparr>removeItem_throws := (\<lambda>key. key = CACHE_KEY)\<rparr>"
          "cached_world ''[]'' ''1000''"]
  by (simp add: online_env_def empty_world_def)

text \<open>
  C7, as stated, fails where it says that no list the public API returns carries an
  earlier configuration value. A list is cached under the initial configuration; the
  intake base is then set to another site; the next \<^verbatim>\<open>getAllAds()\<close> serves the cached
  list, whose \<^verbatim>\<open>ctaUrl\<close> was composed with the initial base. (The static fallback list
  carries the initial base too, under every later configuration: its template literals
  are evaluated when the module is loaded.)
\<close>

theorem cached_list_keeps_earlier_base:
  "INTAKE_BASE_URL relocated_config = ''https://example.org''
   \<and> fst (getAllAds relocated_config (online_env (Some [sample_service]) 2000)
            (snd (refreshAds initial_config (online_env (Some [sample_service]) 1000) empty_world)))
       = Inr [sample_ad]
   \<and> ctaUrl sample_ad = ''https://davidjgrimsley.com/intake/tutoring''
   \<and> fst (getAllAds relocated_config offline_env empty_world) = Inr fallbackAds
   \<and> map ctaUrl fallbackAds =
       [''https://davidjgrimsley.com/creative-strategy'',
        ''https://davidjgrimsley.com/portfolio-review'',
        ''https://davidjgrimsley.com/brand-identity'',
        ''https://davidjgrimsley.com/launch-support'']"
proof -
  let ?w1 = "snd (refreshAds initial_config (online_env (Some [sample_service]) 1000) empty_world)"
  have written: "store ?w1 CACHE_KEY = Some (JSON_stringify (online_env (Some [sample_service]) 1000) [sample_ad])"
    "store ?w1 CACHE_TIMESTAMP_KEY = Some (toString 1000)"
    by (simp_all add: refreshAds_eq sample_fetch_plain setCachedAds_eq keys_distinct)
      (simp_all add: online_env_def)
  have cached: "fst (getAllAds relocated_config (online_env (Some [sample_service]) 2000) ?w1)
      = Inr [sample_ad]"
    using getAllAds_reads_written [OF written, where e' = "online_env (Some [sample_service]) 2000"
        and c' = relocated_config]
    by (simp add: online_env_def table_stringify_def table_parse_def)
  have offline: "fst (getAllAds relocated_config offline_env empty_world) = Inr fallbackAds"
    using getAllAds_absent [OF getCachedAds_absent, where w = empty_world and e = offline_env
        and c = relocated_config]
    by (simp add: empty_world_def settle_def receive_def await_def offline_env_def)
  have urls: "map ctaUrl fallbackAds =
       [''https://davidjgrimsley.com/creative-strategy'',
        ''https://davidjgrimsley.com/portfolio-review'',
        ''https://davidjgrimsley.com/brand-identity'',
        ''https://davidjgrimsley.com/launch-support'']"
    by (simp add: fallbackAds_def initial_config_def)
  show ?thesis
    using cached offline urls by (simp add: relocated_config_eq sample_ad_ctaUrl)
qed

text \<open>
  C7, amended. \<^verbatim>\<open>initializeAdsSDK\<close> sets each field it is given (a non-empty URL,
  less one trailing slash; a duration that is not negative) and keeps the others. The
  next operation reads the values current when it runs: \<^verbatim>\<open>refreshAds()\<close>, and
  \<^verbatim>\<open>getAllAds()\<close> on an absent cache, send their request to the current
  \<^verbatim>\<open>API_URL\<close>; every record they transform has the current \<^verbatim>\<open>INTAKE_BASE_URL\<close>
  before its relative path; \<^verbatim>\<open>isCacheExpired\<close> compares the age with the current
  \<^verbatim>\<open>CACHE_DURATION\<close>. A list served from the cache keeps the \<^verbatim>\<open>ctaUrl\<close> values
  it was stored with: the cached paths return the stored list as it is.
\<close>

theorem configuration_read_at_use:
  "API_URL (initializeAdsSDK (Some given) c) =
      (case apiUrl given of
         Some u \<Rightarrow> if u \<noteq> [] then removeTrailingSlash u else API_URL c
       | None \<Rightarrow> API_URL c)
   \<and> INTAKE_BASE_URL (initializeAdsSDK (Some given) c) =
      (case intakeBaseUrl given of
         Some b \<Rightarrow> if b \<noteq> [] then removeTrailingSlash b else INTAKE_BASE_URL c
       | None \<Rightarrow> INTAKE_BASE_URL c)
   \<and> CACHE_DURATION (initializeAdsSDK (Some given) c) =
      (case cacheDuration given of
         Some d \<Rightarrow> if d < 0 then CACHE_DURATION c else d
       | None \<Rightarrow> CACHE_DURATION c)
   \<and> (let c' = initializeAdsSDK arg c in
        requests (snd (refreshAds c' e w)) = requests w @ [API_URL c']
        \<and> (store w CACHE_KEY = None \<longrightarrow>
              requests (snd (getAllAds c' e w)) = requests w @ [API_URL c'])
        \<and> (\<forall>r payload. remote e (API_URL c') = Some r \<and> ok r \<and> body r = Json payload \<longrightarrow>
              (\<exists>ads. fst (refreshAds c' e w) = Inr ads
                 \<and> map ctaUrl ads =
                     map (\<lambda>s. INTAKE_BASE_URL c' @ intakeUrl s)
                       (case services payload of Some ss \<Rightarrow> ss | None \<Rightarrow> [])))
        \<and> (\<forall>r payload ss. store w CACHE_KEY = None \<and> remote e (API_URL c') = Some r \<and> ok r
              \<and> body r = Json payload \<and> services payload = Some ss \<and> ss \<noteq> [] \<longrightarrow>
              (\<exists>ads. fst (getAllAds c' e w) = Inr ads
                 \<and> map ctaUrl ads = map (\<lambda>s. INTAKE_BASE_URL c' @ intakeUrl s) ss))
        \<and> (\<forall>t written. \<not> getItem_throws e CACHE_TIMESTAMP_KEY
              \<and> store w CACHE_TIMESTAMP_KEY = Some t \<and> parseInt t = Some written \<longrightarrow>
              fst (isCacheExpired c' e w) = Inr (now_at_read e - written > CACHE_DURATION c')))"
proof -
  have init: "API_URL (initializeAdsSDK (Some given) c) =
      (case apiUrl given of
         Some u \<Rightarrow> if u \<noteq> [] then removeTrailingSlash u else API_URL c
       | None \<Rightarrow> API_URL c)"
    "INTAKE_BASE_URL (initializeAdsSDK (Some given) c) =
      (case intakeBaseUrl given of
         Some b \<Rightarrow> if b \<noteq> [] then removeTrailingSlash b else INTAKE_BASE_URL c
       | None \<Rightarrow> INTAKE_BASE_URL c)"
    "CACHE_DURATION (initializeAdsSDK (Some given) c) =
      (case cacheDuration given of
         Some d \<Rightarrow> if d < 0 then CACHE_DURATION c else d
       | None \<Rightarrow> CACHE_DURATION c)"
    by (simp_all add: initializeAdsSDK_def split: option.splits)
  have ops: "requests (snd (refreshAds c' e w)) = requests w @ [API_URL c']
        \<and> (store w CACHE_KEY = None \<longrightarrow>
              requests (snd (getAllAds c' e w)) = requests w @ [API_URL c'])
        \<and> (\<forall>r payload. remote e (API_URL c') = Some r \<and> ok r \<and> body r = Json payload \<longrightarrow>
              (\<exists>ads. fst (refreshAds c' e w) = Inr ads
                 \<and> map ctaUrl ads =
                     map (\<lambda>s. INTAKE_BASE_URL c' @ intakeUrl s)
                       (case services payload of Some ss \<Rightarrow> ss | None \<Rightarrow> [])))
        \<and> (\<forall>r payload ss. store w CACHE_KEY = None \<and> remote e (API_URL c') = Some r \<and> ok r
              \<and> body r = Json payload \<and> services payload = Some ss \<and> ss \<noteq> [] \<longrightarrow>
              (\<exists>ads. fst (getAllAds c' e w) = Inr ads
                 \<and> map ctaUrl ads = map (\<lambda>s. INTAKE_BASE_URL c' @ intakeUrl s) ss))
        \<and> (\<forall>t written. \<not> getItem_throws e CACHE_TIMESTAMP_KEY
              \<and> store w CACHE_TIMESTAMP_KEY = Some t \<and> parseInt t = Some written \<longrightarrow>
              fst (isCacheExpired c' e w) = Inr (now_at_read e - written > CACHE_DURATION c'))"
    for c'
  proof (intro conjI allI impI)
    show "requests (snd (refreshAds c' e w)) = requests w @ [API_URL c']"
      by (simp add: refreshAds_eq setCachedAds_eq split: sum.splits)
  next
    assume "store w CACHE_KEY = None"
    then show "requests (snd (getAllAds c' e w)) = requests w @ [API_URL c']"
      using getAllAds_absent [OF getCachedAds_absent, where w = w and e = e and c = c']
      by (simp add: setCachedAds_eq split: sum.splits)
  next
    fix r payload
    assume "remote e (API_URL c') = Some r \<and> ok r \<and> body r = Json payload"
    then have "fst (settle c' e (API_URL c') w) =
        Inr (map (transformService c') (case services payload of Some ss \<Rightarrow> ss | None \<Rightarrow> []))"
      using settle_Inr_iff [of c' e "API_URL c'" w] by blast
    then show "\<exists>ads. fst (refreshAds c' e w) = Inr ads
        \<and> map ctaUrl ads =
            map (\<lambda>s. INTAKE_BASE_URL c' @ intakeUrl s)
              (case services payload of Some ss \<Rightarrow> ss | None \<Rightarrow> [])"
      by (simp add: refreshAds_eq ctaUrl_transformService)
  next
    fix r payload ss
    assume a: "store w CACHE_KEY = None \<and> remote e (API_URL c') = Some r \<and> ok r
        \<and> body r = Json payload \<and> services payload = Some ss \<and> ss \<noteq> []"
    then have "fst (settle c' e (API_URL c') w) = Inr (map (transformService c') ss)"
      using settle_Inr_iff [of c' e "API_URL c'" w "map (transformService c') ss"] by auto
    then show "\<exists>ads. fst (getAllAds c' e w) = Inr ads
        \<and> map ctaUrl ads = map (\<lambda>s. INTAKE_BASE_URL c' @ intakeUrl s) ss"
      using a getAllAds_absent [OF getCachedAds_absent, where w = w and e = e and c = c']
      by (simp add: ctaUrl_transformService)
  next
    fix t written
    assume "\<not> getItem_throws e CACHE_TIMESTAMP_KEY
        \<and> store w CACHE_TIMESTAMP_KEY = Some t \<and> parseInt t = Some written"
    then show "fst (isCacheExpired c' e w) = Inr (now_at_read e - written > CACHE_DURATION c')"
      using isCacheExpired_age [where e = e and w = w and t = t and written = written and c = c'] by simp
  qed
  show ?thesis
    unfolding Let_def using init ops by blast
qed


theorem configuration_read_at_use_witness:
  "API_URL relocated_config = ''https://example.org/api/content''
   \<and> INTAKE_BASE_URL relocated_config = ''https://example.org''
   \<and> CACHE_DURATION relocated_config = 60000
   \<and> requests (snd (refreshAds relocated_config (online_env (Some [sample_service]) 1000)
        empty_world)) = [''https://example.org/api/content'']
   \<and> map ctaUrl
        (case fst (refreshAds relocated_config (online_env (Some [sample_service]) 1000)
                     empty_world) of
           Inr ads \<Rightarrow> ads
         | Inl err \<Rightarrow> [])
       = [''https://example.org/intake/tutoring'']
   \<and> fst (isCacheExpired relocated_config (online_env None 70000) (cached_world ''[]'' ''1000''))
       = Inr True"
proof -
  let ?given = "\<lparr>apiUrl = Some ''https://example.org/api/content/'',
                  intakeBaseUrl = Some ''https://example.org/'',
                  cacheDuration = Some 60000\<rparr>"
  let ?e = "online_env (Some [sample_service]) 1000"
  note first = configuration_read_at_use [where given = ?given and c = initial_config
      and arg = "Some ?given" and e = ?e and w = empty_world, folded relocated_config_def]
  note second = configuration_read_at_use [where given = ?given and c = initial_config
      and arg = "Some ?given" and e = "online_env None 70000" and w = "cached_world ''[]'' ''1000''",
      folded relocated_config_def]
  have fields: "API_URL relocated_config = ''https://example.org/api/content''"
    "INTAKE_BASE_URL relocated_config = ''https://example.org''"
    "CACHE_DURATION relocated_config = 60000"
    using first by (simp_all add: removeTrailingSlash_def)
  have answered: "remote ?e (API_URL relocated_config) = Some (sample_response (Some [sample_service]))
      \<and> ok (sample_response (Some [sample_service]))
      \<and> body (sample_response (Some [sample_service]))
          = Json \<lparr>version = ''1'', generatedAt = ''2025-01-01T00:00:00Z'',
                  services = Some [sample_service]\<rparr>"
    by (simp add: online_env_def sample_response_def ok_def)
  from first have sent: "requests (snd (refreshAds relocated_config ?e empty_world))
      = requests empty_world @ [API_URL relocated_config]"
    unfolding Let_def by blast
  from first answered have "\<exists>ads. fst (refreshAds relocated_config ?e empty_world) = Inr ads
      \<and> map ctaUrl ads = map (\<lambda>s. INTAKE_BASE_URL relocated_config @ intakeUrl s)
          (case services \<lparr>version = ''1'', generatedAt = ''2025-01-01T00:00:00Z'',
                  services = Some [sample_service]\<rparr> of Some ss \<Rightarrow> ss | None \<Rightarrow> [])"
    unfolding Let_def by blast
  then have composed: "\<exists>ads. fst (refreshAds relocated_config ?e empty_world) = Inr ads
      \<and> map ctaUrl ads = [''https://example.org/intake/tutoring'']"
    by (simp add: fields sample_service_def)
  have stamp: "\<not> getItem_throws (online_env None 70000) CACHE_TIMESTAMP_KEY
      \<and> store (cached_world ''[]'' ''1000'') CACHE_TIMESTAMP_KEY = Some ''1000''
      \<and> parseInt ''1000'' = Some 1000"
    by (simp add: online_env_def cached_world_def parseInt_1000)
  from second stamp have "fst (isCacheExpired relocated_config (online_env None 70000)
      (cached_world ''[]'' ''1000''))
      = Inr (now_at_read (online_env None 70000) - 1000 > CACHE_DURATION relocated_config)"
    unfolding Let_def by blast
  then have expired: "fst (isCacheExpired relocated_config (online_env None 70000)
      (cached_world ''[]'' ''1000'')) = Inr True"
    by (simp add: fields online_env_def)
  from composed have listed: "map ctaUrl
        (case fst (refreshAds relocated_config ?e empty_world) of
           Inr ads \<Rightarrow> ads
         | Inl err \<Rightarrow> [])
       = [''https://example.org/intake/tutoring'']"
    by auto
  show ?thesis
    using fields sent listed expired by (simp add: empty_world_def)
qed

text \<open>
  C8. The claim is what \<^verbatim>\<open>transformService\<close> sets out to do, and the code misses
  a case of it. \<^verbatim>\<open>colorMap\<close> and \<^verbatim>\<open>iconMap\<close> are object literals, so the lookups
  \<^verbatim>\<open>colorMap[service.accent]\<close> and \<^verbatim>\<open>iconMap[service.id]\<close> also find the members
  inherited from \<^verbatim>\<open>Object.prototype\<close>. For a record whose accent token is
  \<^verbatim>\<open>constructor\<close>, a token the colour table does not list, the accent is the inherited
  function and not the default \<open>blue\<close>; for a record whose id is \<^verbatim>\<open>toString\<close> or
  \<^verbatim>\<open>__proto__\<close>, ids the icon table does not list, the icon is the inherited member and
  not the default icon. A token that is neither listed nor inherited does get the
  default, and a listed one the table's value.
\<close>

theorem transformService_inherited_key:
  "accentColor (transformService initial_config (sample_service\<lparr>accent := ''constructor''\<rparr>))
     = Inherited ''constructor''
   \<and> accentColor (transformService initial_config (sample_service\<lparr>accent := ''constructor''\<rparr>))
     \<noteq> Plain blue
   \<and> icon (transformService initial_config (sample_service\<lparr>service_id := ''toString''\<rparr>))
     = Inherited ''toString''
   \<and> icon (transformService initial_config (sample_service\<lparr>service_id := ''__proto__''\<rparr>))
     = Inherited ''__proto__''
   \<and> icon (transformService initial_config (sample_service\<lparr>service_id := ''toString''\<rparr>))
     \<noteq> Plain ''information-circle-outline''
   \<and> accentColor (transformService initial_config (sample_service\<lparr>accent := ''#FFFFFF''\<rparr>))
     = Plain blue
   \<and> icon (transformService initial_config (sample_service\<lparr>service_id := ''consulting''\<rparr>))
     = Plain ''information-circle-outline''
   \<and> accentColor (transformService initial_config sample_service) = Plain green
   \<and> icon (transformService initial_config sample_service) = Plain ''school-outline''"
proof -
  have inherited: "''constructor'' \<in> set Object_prototype_keys"
    "''toString'' \<in> set Object_prototype_keys" "''__proto__'' \<in> set Object_prototype_keys"
    by (simp_all add: Object_prototype_keys_def)
  have unknown: "''#FFFFFF'' \<notin> set Object_prototype_keys"
    "''consulting'' \<notin> set Object_prototype_keys"
    by (simp_all add: Object_prototype_keys_def)
  have listed: "colorMap ''#1E9E70'' = Some (Plain green)"
    "iconMap ''tutoring'' = Some (Plain ''school-outline'')"
    by (simp_all add: colorMap_def iconMap_def object_literal_def)
  show ?thesis
    using colorMap_inherited [OF inherited(1)] iconMap_inherited [OF inherited(2)]
      iconMap_inherited [OF inherited(3)]
      colorMap_unknown [OF _ unknown(1)] iconMap_unknown [OF _ unknown(2)] listed
    by (simp add: transformService_def sample_service_def)
qed

text \<open>
  C9. When \<^verbatim>\<open>clearAdsCache()\<close> has resolved, both keys are gone, and the next
  \<^verbatim>\<open>getAllAds()\<close>, under any configuration and environment, does what it does on a
  store that never held anything: the same result, the same single awaited request, no
  detached request, and the same two entries written, whatever was cached before.
\<close>

theorem clear_then_getAllAds_is_first_run:
  assumes "fst (clearAdsCache e w) = Inr ()"
  shows "store (snd (clearAdsCache e w)) CACHE_KEY = None
   \<and> store (snd (clearAdsCache e w)) CACHE_TIMESTAMP_KEY = None
   \<and> (\<forall>c e'.
        fst (getAllAds c e' (snd (clearAdsCache e w)))
          = fst (getAllAds c e' (w\<lparr>store := Map.empty\<rparr>))
        \<and> requests (snd (getAllAds c e' (snd (clearAdsCache e w))))
          = requests (snd (getAllAds c e' (w\<lparr>store := Map.empty\<rparr>)))
        \<and> requests (snd (getAllAds c e' (snd (clearAdsCache e w)))) = requests w @ [API_URL c]
        \<and> detached (snd (getAllAds c e' (snd (clearAdsCache e w)))) = detached w
        \<and> store (snd (getAllAds c e' (snd (clearAdsCache e w)))) CACHE_KEY
          = store (snd (getAllAds c e' (w\<lparr>store := Map.empty\<rparr>))) CACHE_KEY
        \<and> store (snd (getAllAds c e' (snd (clearAdsCache e w)))) CACHE_TIMESTAMP_KEY
          = store (snd (getAllAds c e' (w\<lparr>store := Map.empty\<rparr>))) CACHE_TIMESTAMP_KEY)"
proof -
  let ?cleared = "w\<lparr>store := (store w)(CACHE_KEY := None, CACHE_TIMESTAMP_KEY := None)\<rparr>"
  let ?first = "w\<lparr>store := Map.empty\<rparr>"
  have cleared: "snd (clearAdsCache e w) = ?cleared"
    using assms by (simp add: clearAdsCache_eq split: if_splits)
  have "fst (getAllAds c e' ?cleared) = fst (getAllAds c e' ?first)
        \<and> requests (snd (getAllAds c e' ?cleared)) = requests (snd (getAllAds c e' ?first))
        \<and> requests (snd (getAllAds c e' ?cleared)) = requests w @ [API_URL c]
        \<and> detached (snd (getAllAds c e' ?cleared)) = detached w
        \<and> store (snd (getAllAds c e' ?cleared)) CACHE_KEY
          = store (snd (getAllAds c e' ?first)) CACHE_KEY
        \<and> store (snd (getAllAds c e' ?cleared)) CACHE_TIMESTAMP_KEY
          = store (snd (getAllAds c e' ?first)) CACHE_TIMESTAMP_KEY" for c e'
    using getAllAds_absent_frame [of ?first ?cleared c e'] by simp
  then have every: "\<forall>c e'. fst (getAllAds c e' ?cleared) = fst (getAllAds c e' ?first)
        \<and> requests (snd (getAllAds c e' ?cleared)) = requests (snd (getAllAds c e' ?first))
        \<and> requests (snd (getAllAds c e' ?cleared)) = requests w @ [API_URL c]
        \<and> detached (snd (getAllAds c e' ?cleared)) = detached w
        \<and> store (snd (getAllAds c e' ?cleared)) CACHE_KEY
          = store (snd (getAllAds c e' ?first)) CACHE_KEY
        \<and> store (snd (getAllAds c e' ?cleared)) CACHE_TIMESTAMP_KEY
          = store (snd (getAllAds c e' ?first)) CACHE_TIMESTAMP_KEY"
    by blast
  have keys: "store ?cleared CACHE_KEY = None" "store ?cleared CACHE_TIMESTAMP_KEY = None"
    by (simp_all add: keys_distinct)
  show ?thesis
    unfolding cleared using keys every by blast
qed

theorem clear_then_getAllAds_is_first_run_witness:
  "store (snd (clearAdsCache (online_env None 0) (cached_world ''[tutoring]'' ''1000''))) CACHE_KEY
     = None
   \<and> fst (getAllAds initial_config offline_env
            (snd (clearAdsCache (online_env None 0) (cached_world ''[tutoring]'' ''1000''))))
     = fst (getAllAds initial_config offline_env empty_world)
   \<and> requests (snd (getAllAds initial_config offline_env
            (snd (clearAdsCache (online_env None 0) (cached_world ''[tutoring]'' ''1000'')))))
     = [API_URL initial_config]"
proof -
  have resolves: "fst (clearAdsCache (online_env None 0) (cached_world ''[tutoring]'' ''1000''))
      = Inr ()"
    by (simp add: clearAdsCache_eq online_env_def)
  have first: "(cached_world ''[tutoring]'' ''1000'')\<lparr>store := Map.empty\<rparr> = empty_world"
    by (simp add: cached_world_def empty_world_def)
  note after = clear_then_getAllAds_is_first_run [OF resolves]
  from after have "fst (getAllAds initial_config offline_env
            (snd (clearAdsCache (online_env None 0) (cached_world ''[tutoring]'' ''1000''))))
     = fst (getAllAds initial_config offline_env
            ((cached_world ''[tutoring]'' ''1000'')\<lparr>store := Map.empty\<rparr>))
    \<and> requests (snd (getAllAds initial_config offline_env
            (snd (clearAdsCache (online_env None 0) (cached_world ''[tutoring]'' ''1000'')))))
      = requests (cached_world ''[tutoring]'' ''1000'') @ [API_URL initial_config]"
    by blast
  with after first show ?thesis
    by (simp add: cached_world_def)
qed

text \<open>
  C10, as stated, fails where it says that the empty list is persisted. The cache is
  absent and the fetch yields the empty list, but the store throws on every write:
  \<^verbatim>\<open>getAllAds()\<close> returns the fallback list, nothing is stored, and the next call
  fetches again and returns the fallback list again, not the empty list.
\<close>

theorem empty_fetch_not_persisted:
  "fst (settle initial_config full_store_env (API_URL initial_config) empty_world) = Inr []
   \<and> fst (getAllAds initial_config full_store_env empty_world) = Inr fallbackAds
   \<and> store (snd (getAllAds initial_config full_store_env empty_world)) = Map.empty
   \<and> fst (getAllAds initial_config full_store_env
            (snd (getAllAds initial_config full_store_env empty_world))) = Inr fallbackAds
   \<and> fallbackAds \<noteq> []"
proof -
  have fetched: "fst (settle initial_config full_store_env url w) = Inr []" for url w
    unfolding full_store_env_def by (rule empty_fetch)
  have throws: "setItem_throws full_store_env CACHE_KEY"
    by (simp add: full_store_env_def)
  have absent: "store (empty_world\<lparr>requests := [API_URL initial_config]\<rparr>) CACHE_KEY = None"
    by (simp add: empty_world_def)
  have first: "getAllAds initial_config full_store_env empty_world
      = (Inr fallbackAds, empty_world\<lparr>requests := [API_URL initial_config]\<rparr>)"
    using getAllAds_absent [OF getCachedAds_absent, where w = empty_world and e = full_store_env
        and c = initial_config]
    by (simp add: fetched setCachedAds_eq throws) (simp add: empty_world_def)
  have second: "fst (getAllAds initial_config full_store_env
      (empty_world\<lparr>requests := [API_URL initial_config]\<rparr>)) = Inr fallbackAds"
    using getAllAds_absent [OF getCachedAds_absent [OF absent], where e = full_store_env
        and c = initial_config]
    by (simp add: fetched setCachedAds_eq throws)
  show ?thesis
    by (simp add: fetched first second fallbackAds_nonempty) (simp add: empty_world_def)
qed

text \<open>
  C10, amended. When the cache is absent, the fetch succeeds with the empty list and the
  store accepts both writes, \<^verbatim>\<open>getAllAds()\<close> returns the fallback list (which is not
  empty) and stores the empty list with the time of the write. A later call that reads
  both keys within \<^verbatim>\<open>CACHE_DURATION\<close> of that time, on a runtime whose
  \<^verbatim>\<open>JSON.parse\<close> inverts \<^verbatim>\<open>JSON.stringify\<close> on the empty list, returns the empty
  cached list and leaves the world as it is, so the same holds for the call after it.
\<close>

theorem empty_fetch_is_cached:
  assumes "store w CACHE_KEY = None" and "fst (settle c e (API_URL c) w) = Inr []"
    and "\<not> setItem_throws e CACHE_KEY" and "\<not> setItem_throws e CACHE_TIMESTAMP_KEY"
  shows "fst (getAllAds c e w) = Inr fallbackAds
   \<and> fallbackAds \<noteq> []
   \<and> store (snd (getAllAds c e w)) =
       (store w)(CACHE_KEY \<mapsto> JSON_stringify e [],
                 CACHE_TIMESTAMP_KEY \<mapsto> toString (now_at_write e))
   \<and> (\<forall>c' e'. \<not> getItem_throws e' CACHE_KEY \<and> \<not> getItem_throws e' CACHE_TIMESTAMP_KEY
          \<and> JSON_stringify e [] \<noteq> [] \<and> JSON_parse e' (JSON_stringify e []) = Ads []
          \<and> now_at_read e' - now_at_write e \<le> CACHE_DURATION c' \<longrightarrow>
        getAllAds c' e' (snd (getAllAds c e w)) = (Inr [], snd (getAllAds c e w)))"
proof -
  let ?w1 = "w\<lparr>requests := requests w @ [API_URL c],
               store := (store w)(CACHE_KEY \<mapsto> JSON_stringify e [],
                                  CACHE_TIMESTAMP_KEY \<mapsto> toString (now_at_write e))\<rparr>"
  have first: "getAllAds c e w = (Inr fallbackAds, ?w1)"
    using getAllAds_absent [OF getCachedAds_absent [OF assms(1)], of c] assms(2,3,4)
    by (simp add: setCachedAds_eq)
  have written: "store ?w1 CACHE_KEY = Some (JSON_stringify e [])"
    "store ?w1 CACHE_TIMESTAMP_KEY = Some (toString (now_at_write e))"
    by (simp_all add: keys_distinct)
  have next_call: "getAllAds c' e' ?w1 = (Inr [], ?w1)"
    if "\<not> getItem_throws e' CACHE_KEY" and "\<not> getItem_throws e' CACHE_TIMESTAMP_KEY"
      and "JSON_stringify e [] \<noteq> []" and "JSON_parse e' (JSON_stringify e []) = Ads []"
      and "now_at_read e' - now_at_write e \<le> CACHE_DURATION c'" for c' e'
    using getAllAds_reads_written [OF written that(1,2,3,4), of c'] that(5) by simp
  show ?thesis
    unfolding first using next_call by (simp add: fallbackAds_nonempty)
qed

theorem empty_fetch_is_cached_witness:
  "fst (getAllAds initial_config (online_env (Some []) 1000) empty_world) = Inr fallbackAds
   \<and> store (snd (getAllAds initial_config (online_env (Some []) 1000) empty_world))
       = [CACHE_KEY \<mapsto> ''[]'', CACHE_TIMESTAMP_KEY \<mapsto> ''1000'']
   \<and> fst (getAllAds initial_config (online_env (Some []) 2000)
            (snd (getAllAds initial_config (online_env (Some []) 1000) empty_world))) = Inr []"
proof -
  have absent: "store empty_world CACHE_KEY = None"
    by (simp add: empty_world_def)
  have fetched: "fst (settle initial_config (online_env (Some []) 1000) (API_URL initial_config)
      empty_world) = Inr []"
    using empty_fetch [where c = initial_config and now = 1000 and throws = "\<lambda>key. False"
        and url = "API_URL initial_config" and w = empty_world]
    by (simp add: online_env_def)
  have accepts: "\<not> setItem_throws (online_env (Some []) 1000) CACHE_KEY"
    "\<not> setItem_throws (online_env (Some []) 1000) CACHE_TIMESTAMP_KEY"
    by (simp_all add: online_env_def)
  note cached = empty_fetch_is_cached [OF absent fetched accepts]
  have later: "\<not> getItem_throws (online_env (Some []) 2000) CACHE_KEY
      \<and> \<not> getItem_throws (online_env (Some []) 2000) CACHE_TIMESTAMP_KEY
      \<and> JSON_stringify (online_env (Some []) 1000) [] \<noteq> []
      \<and> JSON_parse (online_env (Some []) 2000) (JSON_stringify (online_env (Some []) 1000) [])
          = Ads []
      \<and> now_at_read (online_env (Some []) 2000) - now_at_write (online_env (Some []) 1000)
          \<le> CACHE_DURATION initial_config"
    by (simp add: online_env_def table_stringify_def table_parse_def initial_config_def)
  from cached later have "getAllAds initial_config (online_env (Some []) 2000)
      (snd (getAllAds initial_config (online_env (Some []) 1000) empty_world))
      = (Inr [], snd (getAllAds initial_config (online_env (Some []) 1000) empty_world))"
    by blast
  with cached show ?thesis
    by (simp add: online_env_def table_stringify_def toString_1000 empty_world_def)
qed

end
